theory Spec2Isabelle
  imports Main "HOL-Library.Sublist" "HOL-Library.Char_ord" "HOL-Library.List_Lexorder"
begin

section \<open>The scraper of apertium/family-visualizations\<close>

text \<open>
  A shallow embedding of \<^verbatim>\<open>src/scrapers/scraper.py\<close>. Python strings are
  \<^typ>\<open>string\<close>: a character stands for a code point below 256, and text with other
  characters is outside the model. Everything the script obtains from outside (the
  file system, git, the network, the two stem counters) is a field of the record
  \<open>world\<close>; exceptions are values of the type \<open>error\<close>.
\<close>

subsection \<open>Python string primitives\<close>

text \<open>
  \<^verbatim>\<open>s.split(sep)\<close> for a non-empty separator: the pieces between the
  non-overlapping occurrences of \<open>sep\<close>, found left to right; always at least one
  piece. \<open>acc\<close> holds the current piece, reversed. (Python raises ValueError on an empty
  separator; the script only passes the literals \<^verbatim>\<open>"<>"\<close>, \<^verbatim>\<open>"-"\<close>
  and \<^verbatim>\<open>"\n"\<close>.)
\<close>

fun splitAcc :: "string \<Rightarrow> string \<Rightarrow> string \<Rightarrow> string list" where
  "splitAcc sep acc [] = [rev acc]"
| "splitAcc sep acc (c # cs) =
     (if prefix sep (c # cs) then rev acc # splitAcc sep [] (drop (length sep - 1) cs)
      else splitAcc sep (c # acc) cs)"

definition split :: "string \<Rightarrow> string \<Rightarrow> string list" where
  "split sep s = splitAcc sep [] s"

text \<open>\<^verbatim>\<open>s.replace(old, new)\<close> for a non-empty \<open>old\<close>, left to right.\<close>

fun replace :: "string \<Rightarrow> string \<Rightarrow> string \<Rightarrow> string" where
  "replace old new [] = []"
| "replace old new (c # cs) =
     (if prefix old (c # cs) then new @ replace old new (drop (length old - 1) cs)
      else c # replace old new cs)"

text \<open>\<^verbatim>\<open>sub in s\<close> on strings: \<open>sub\<close> occurs in \<open>s\<close> as a contiguous block.\<close>

fun contains :: "string \<Rightarrow> string \<Rightarrow> bool" where
  "contains sub [] = (sub = [])"
| "contains sub (c # cs) = (prefix sub (c # cs) \<or> contains sub cs)"

text \<open>
  \<^verbatim>\<open>str.isspace\<close> on the code points below 256: tab, line feed, vertical tab, form
  feed, carriage return, the four separators 0x1C..0x1F, the space, the next-line
  character 0x85 and the no-break space 0xA0. \<^verbatim>\<open>s.strip()\<close> removes such
  characters at both ends.
\<close>

definition isSpace :: "char \<Rightarrow> bool" where
  "isSpace c = (let n = (of_char c :: nat) in
     (9 \<le> n \<and> n \<le> 13) \<or> (28 \<le> n \<and> n \<le> 32) \<or> n = 133 \<or> n = 160)"

definition strip :: "string \<Rightarrow> string" where
  "strip s = rev (dropWhile isSpace (rev (dropWhile isSpace s)))"

text \<open>
  The character class \<^verbatim>\<open>\w\<close> of a pattern on \<^verbatim>\<open>str\<close>, on the code points below
  256: the underscore and the alphanumeric characters, which are the ASCII letters and
  digits, the ordinal indicators 0xAA and 0xBA, the micro sign 0xB5, the superscript
  digits 0xB2, 0xB3 and 0xB9, the fractions 0xBC..0xBE, and the letters 0xC0..0xFF but
  for the signs 0xD7 and 0xF7.
\<close>

definition isWord :: "char \<Rightarrow> bool" where
  "isWord c = (let n = (of_char c :: nat) in
     (48 \<le> n \<and> n \<le> 57) \<or> (65 \<le> n \<and> n \<le> 90) \<or> (97 \<le> n \<and> n \<le> 122) \<or> n = 95 \<or>
     n = 170 \<or> n = 178 \<or> n = 179 \<or> n = 181 \<or> n = 185 \<or> n = 186 \<or>
     (188 \<le> n \<and> n \<le> 190) \<or> (192 \<le> n \<and> n \<le> 214) \<or> (216 \<le> n \<and> n \<le> 246) \<or>
     (248 \<le> n \<and> n \<le> 255))"

definition newline :: string where
  "newline = [CHR 0x0A]"

subsection \<open>Errors and data\<close>

datatype error =
    IndexError
  | UnboundLocalError
  | TypeError
  | AttributeError
  | KeyError
  | UnicodeDecodeError
  | PermissionError
  | CloneError string
  | StatsServiceError
  | CalledProcessError
  | WikiError

text \<open>The dictionaries \<^verbatim>\<open>{"sha", "author", "date", "stems"}\<close> and
  \<^verbatim>\<open>{"name", "history"}\<close>.\<close>

record CommitRecord =
  sha :: string
  author :: string
  date :: string
  stems :: int

record EntityHistory =
  name :: string
  history :: "CommitRecord list"

text \<open>
  What the \<^verbatim>\<open>try\<close> block of lines 77-83 and 191-199 meets:
  \<^item> \<open>Absent\<close>: there is no file, and \<^verbatim>\<open>open\<close> raises FileNotFoundError;
  \<^item> \<open>Malformed\<close>: the file is read and decoded, its text is not JSON, and
    \<^verbatim>\<open>json.load\<close> raises JSONDecodeError;
  \<^item> \<open>Raising e\<close>: the block raises another exception \<open>e\<close>, which the
    \<^verbatim>\<open>except\<close> clause of lines 84 and 200 does not catch: UnicodeDecodeError for a
    file that is not valid UTF-8 (the file is opened with that encoding), PermissionError
    for a file that may not be read, KeyError or TypeError for JSON that is not a list
    of dictionaries with a name and a history;
  \<^item> \<open>Parsed oldFile\<close>: the file holds the list of entries \<open>oldFile\<close>.
\<close>

datatype persisted = Absent | Malformed | Raising error | Parsed "EntityHistory list"

text \<open>The result of \<^verbatim>\<open>dixcounter.get_info\<close>: the sentinel \<open>-1\<close>, or a dictionary
  whose \<^verbatim>\<open>"stems"\<close> entry is read.\<close>

datatype dix_info = DixFailure | DixInfo int

text \<open>A package descriptor of the stats service, and one statistic of it.\<close>

record package =
  pname :: string
  topics :: "string list"

record statistic =
  stat_kind :: string
  stat_value :: int

text \<open>An element of the parsed wiki page: its text (None when absent) and its children.\<close>

datatype elem = Elem (etext: "string option") (children: "elem list")

record world =
  jsonFile :: "string \<Rightarrow> persisted"
  cloneable :: "string \<Rightarrow> bool"
  globDict :: "string \<Rightarrow> string list"
  gitLogCommits :: "string \<Rightarrow> string \<Rightarrow> string option"
  gitLogAuthors :: "string \<Rightarrow> string \<Rightarrow> string option"
  rawContent :: "string \<Rightarrow> string"
  countLexcStems :: "string \<Rightarrow> int option"
  countDixStems :: "string \<Rightarrow> bool \<Rightarrow> dix_info"
  statsService :: "string \<Rightarrow> statistic list option"
  wikiTable :: "string \<Rightarrow> elem option"

text \<open>
  \<^item> \<open>jsonFile w language\<close>: the persisted file \<^verbatim>\<open>json/<language>.json\<close>;
  \<^item> \<open>cloneable w repo\<close>: after \<^verbatim>\<open>git clone\<close> or \<^verbatim>\<open>git pull\<close> the local
    directory of \<open>repo\<close> exists, so that copying \<^verbatim>\<open>.mailmap\<close> into it succeeds;
  \<^item> \<open>globDict w language\<close>: the names of the files of the repository matching
    \<^verbatim>\<open>apertium-<language>.<language>.*\<close>;
  \<^item> \<open>gitLogCommits w dir file\<close>: the decoded output of
    \<^verbatim>\<open>git log --format=%H<>%aN<>%aI<> --name-only --follow file\<close> run in \<open>dir\<close>,
    None when git exits with an error (CalledProcessError);
  \<^item> \<open>gitLogAuthors w dir file\<close>: the same for \<^verbatim>\<open>--format=%aN\<close>;
  \<^item> \<open>rawContent w url\<close>: the text of \<^verbatim>\<open>requests.get(url)\<close>;
  \<^item> \<open>countLexcStems w text\<close>: the lexc counter, None when it exits (SystemExit);
  \<^item> \<open>countDixStems w url bidix\<close>: the dix counter;
  \<^item> \<open>statsService w url\<close>: the \<^verbatim>\<open>"stats"\<close> entry of the reply, None when the
    reply has none (KeyError);
  \<^item> \<open>wikiTable w url\<close>: the first table of class \<^verbatim>\<open>wikitable sortable\<close> of the
    page, None when the page does not parse or has no such table.
\<close>

subsection \<open>rmPrefix, prepRepo, fileExt\<close>

definition rmPrefix :: "string \<Rightarrow> string" where
  "rmPrefix word = drop (length ''apertium-'') word"

definition prepRepo :: "world \<Rightarrow> string \<Rightarrow> error + unit" where
  "prepRepo w repo = (if cloneable w repo then Inr () else Inl (CloneError repo))"

text \<open>
  \<^verbatim>\<open>Path.suffix\<close> of a file name: from its last dot on, when that dot is neither the
  first nor the last character; otherwise empty.
\<close>

definition suffix_of :: "string \<Rightarrow> string" where
  "suffix_of nm =
     (let ext = rev (takeWhile (\<lambda>c. c \<noteq> CHR ''.'') (rev nm)) in
      if length ext = length nm \<or> length ext + 1 = length nm \<or> ext = [] then []
      else CHR ''.'' # ext)"

fun firstExt :: "string list \<Rightarrow> string" where
  "firstExt [] = ''unknown''"
| "firstExt (file # files) =
     (if suffix_of file \<in> {''.lexc'', ''.dix'', ''.metadix''}
      then replace ''.'' '''' (suffix_of file)
      else firstExt files)"

definition fileExt :: "world \<Rightarrow> string \<Rightarrow> string" where
  "fileExt w repo = firstExt (sort (globDict w repo))"

subsection \<open>The commit walk and the merge loop\<close>

text \<open>
  The expression of lines 88-103 and 174-189: the output of git, with every blank line
  removed, cut into lines.
\<close>

definition walk :: "world \<Rightarrow> string \<Rightarrow> string \<Rightarrow> error + string list" where
  "walk w dirName file =
     (case gitLogCommits w dirName file of
        None \<Rightarrow> Inl CalledProcessError
      | Some out \<Rightarrow> Inr (split newline (replace (newline @ newline) '''' out)))"

text \<open>\<^verbatim>\<open>commits.pop()\<close>: the list without its last element; IndexError on the
  empty list.\<close>

definition pop :: "'a list \<Rightarrow> error + 'a list" where
  "pop xs = (if xs = [] then Inl IndexError else Inr (butlast xs))"

definition seen :: "string \<Rightarrow> CommitRecord list \<Rightarrow> bool" where
  "seen s hist = list_ex (\<lambda>cm. s = sha cm) hist"

text \<open>
  The loops of lines 106-144 (monoHistory) and 204-228 (pairHistory) are the same but
  for the counting step, the parameter \<open>cnt\<close>: it receives the fields of the commit
  line and returns an error, \<open>Inr None\<close> when the counter fails (the
  \<^verbatim>\<open>continue\<close> of lines 131, 140 and 225) or the number of stems. The fields
  \<^verbatim>\<open>data[0]\<close>, \<^verbatim>\<open>data[1]\<close> and \<^verbatim>\<open>data[2]\<close> are read before the
  history is searched, so a line with fewer than three fields raises IndexError.
\<close>

fun mergeCommits ::
  "(string list \<Rightarrow> error + int option) \<Rightarrow> CommitRecord list \<Rightarrow> string list
     \<Rightarrow> error + CommitRecord list" where
  "mergeCommits cnt hist [] = Inr hist"
| "mergeCommits cnt hist (commit # commits) =
     (let data = split ''<>'' commit in
      if length data < 3 then Inl IndexError
      else if seen (data ! 0) hist then mergeCommits cnt hist commits
      else
        (case cnt data of
           Inl e \<Rightarrow> Inl e
         | Inr None \<Rightarrow> mergeCommits cnt hist commits
         | Inr (Some n) \<Rightarrow>
             mergeCommits cnt
               (hist @ [\<lparr>sha = data ! 0, author = data ! 1, date = data ! 2, stems = n\<rparr>])
               commits))"

text \<open>
  Lines 105-144 and 203-228: the last line is dropped, then the loop runs. The variable
  \<^verbatim>\<open>history\<close>, here \<open>hvar\<close>, may be unbound (None) when the persisted file
  holds an empty list; Python then raises UnboundLocalError where the variable is first
  read: in the first iteration, after the three fields of the line have been read, or
  after the loop.
\<close>

definition mergeRaw ::
  "(string list \<Rightarrow> error + int option) \<Rightarrow> CommitRecord list option \<Rightarrow> string list
     \<Rightarrow> error + CommitRecord list" where
  "mergeRaw cnt hvar raw =
     (case pop raw of
        Inl e \<Rightarrow> Inl e
      | Inr commits \<Rightarrow>
          (case hvar of
             Some hist \<Rightarrow> mergeCommits cnt hist commits
           | None \<Rightarrow>
               (if commits \<noteq> [] \<and> length (split ''<>'' (hd commits)) < 3 then Inl IndexError
                else Inl UnboundLocalError)))"

text \<open>
  Lines 77-85 and 191-201: the search of the persisted file for the entry of the entity
  \<open>nm\<close>. \<open>hvar\<close> is the variable \<^verbatim>\<open>history\<close> before the statement. An entry
  that does not match sets it to the empty list; a file holding the empty list leaves
  it as it was. The two exceptions that are caught give the empty list; any other
  exception leaves the function.
\<close>

fun scanOldFile ::
  "string \<Rightarrow> EntityHistory list \<Rightarrow> CommitRecord list option \<Rightarrow> CommitRecord list option" where
  "scanOldFile nm [] hvar = hvar"
| "scanOldFile nm (d # ds) hvar =
     (if name d = nm then Some (history d) else scanOldFile nm ds (Some []))"

definition readHistory ::
  "world \<Rightarrow> string \<Rightarrow> string \<Rightarrow> CommitRecord list option
     \<Rightarrow> error + CommitRecord list option" where
  "readHistory w language nm hvar =
     (case jsonFile w language of
        Absent \<Rightarrow> Inr (Some [])
      | Malformed \<Rightarrow> Inr (Some [])
      | Raising e \<Rightarrow> Inl e
      | Parsed oldFile \<Rightarrow> Inr (scanOldFile nm oldFile hvar))"

subsection \<open>monoHistory\<close>

definition rawURL :: "string \<Rightarrow> string \<Rightarrow> string \<Rightarrow> string" where
  "rawURL repo s path =
     ''https://raw.githubusercontent.com/apertium/apertium-'' @ repo @ ''/'' @ s @ ''/'' @ path"

text \<open>Lines 117-141. The file is fetched whatever the extension is.\<close>

definition monoCount :: "world \<Rightarrow> string \<Rightarrow> string \<Rightarrow> string list \<Rightarrow> error + int option" where
  "monoCount w language extension data =
     (if length data < 4 then Inl IndexError
      else
        (let fileURL = rawURL language (data ! 0) (strip (data ! 3));
             dataFile = rawContent w fileURL in
         if extension = ''lexc'' then Inr (countLexcStems w dataFile)
         else
           (case countDixStems w fileURL False of
              DixFailure \<Rightarrow> Inr None
            | DixInfo n \<Rightarrow> Inr (Some n))))"

definition dictFile :: "string \<Rightarrow> string \<Rightarrow> string" where
  "dictFile nm extension = ''apertium-'' @ nm @ ''.'' @ nm @ ''.'' @ extension"

text \<open>Lines 74-146. The persisted file is read first, before the repository is
  prepared.\<close>

definition monoHistory :: "world \<Rightarrow> string \<Rightarrow> error + EntityHistory" where
  "monoHistory w language =
     (let dirName = ''apertium-'' @ language in
      case readHistory w language language None of
        Inl e \<Rightarrow> Inl e
      | Inr hvar \<Rightarrow>
          (case prepRepo w dirName of
             Inl e \<Rightarrow> Inl e
           | Inr _ \<Rightarrow>
               (let extension = fileExt w language in
                case walk w dirName (dictFile language extension) of
                  Inl e \<Rightarrow> Inl e
                | Inr commits \<Rightarrow>
                    (case mergeRaw (monoCount w language extension) hvar commits of
                       Inl e \<Rightarrow> Inl e
                     | Inr hist \<Rightarrow> Inr \<lparr>name = language, history = hist\<rparr>))))"

subsection \<open>pairHistory\<close>

text \<open>
  \<^verbatim>\<open>re.match(r"apertium-\w+-\w+", s)\<close>: the pattern is matched at the start of
  \<open>s\<close> and need not reach its end. \<^verbatim>\<open>\w\<close> does not match the hyphen, so the first
  \<^verbatim>\<open>\w+\<close> is the longest run of word characters after the prefix; a hyphen and one
  more word character must follow.
\<close>

definition matchPair :: "string \<Rightarrow> bool" where
  "matchPair s =
     (prefix ''apertium-'' s \<and>
      (let rest = drop (length ''apertium-'') s;
           w1 = takeWhile isWord rest;
           r1 = dropWhile isWord rest in
       w1 \<noteq> [] \<and>
       (case r1 of
          [] \<Rightarrow> False
        | c # r2 \<Rightarrow> c = CHR ''-'' \<and> (case r2 of [] \<Rightarrow> False | d # _ \<Rightarrow> isWord d))))"

text \<open>Lines 215-227.\<close>

definition pairCount :: "world \<Rightarrow> string \<Rightarrow> string list \<Rightarrow> error + int option" where
  "pairCount w pairName data =
     (if length data < 4 then Inl IndexError
      else
        (let dixFile = rawURL pairName (data ! 0) (data ! 3) in
         case countDixStems w dixFile True of
           DixFailure \<Rightarrow> Inr None
         | DixInfo n \<Rightarrow> Inr (Some n)))"

text \<open>Lines 170-172: the name under which the dictionary of a pair is tracked.\<close>

definition dixName :: "string \<Rightarrow> string" where
  "dixName pairName = (if pairName \<noteq> ''tat-kir'' then pairName else ''tt-ky'')"

text \<open>Lines 162-165: the repositories that are passed over.\<close>

definition excluded :: "string list \<Rightarrow> string \<Rightarrow> bool" where
  "excluded languages pairName =
     (\<not> set (split ''-'' pairName) \<subseteq> set languages \<or> pairName = ''ita-srd'')"

text \<open>
  Lines 167-230, the body of the loop for a repository that is not passed over: the new
  value of \<^verbatim>\<open>history\<close>, which is also the history of the entry appended. The
  persisted file is read after git has answered.
\<close>

definition pairEntry ::
  "world \<Rightarrow> string \<Rightarrow> string \<Rightarrow> CommitRecord list option \<Rightarrow> error + CommitRecord list" where
  "pairEntry w language dirName hvar =
     (let pairName = rmPrefix dirName in
      case prepRepo w dirName of
        Inl e \<Rightarrow> Inl e
      | Inr _ \<Rightarrow>
          (case walk w dirName (dictFile (dixName pairName) ''dix'') of
             Inl e \<Rightarrow> Inl e
           | Inr commits \<Rightarrow>
               (case readHistory w language pairName hvar of
                  Inl e \<Rightarrow> Inl e
                | Inr hvar' \<Rightarrow> mergeRaw (pairCount w pairName) hvar' commits)))"

text \<open>
  The loop over the packages; \<open>hvar\<close> is the variable \<^verbatim>\<open>history\<close>, which lives on
  from one iteration to the next (it starts unbound), and \<open>langPackages\<close> the list
  built so far. The persisted file is read again for every package; it is the same
  file, since the script writes it only after pairHistory has returned.
\<close>

fun pairLoop ::
  "world \<Rightarrow> string \<Rightarrow> string list \<Rightarrow> package list \<Rightarrow> CommitRecord list option
     \<Rightarrow> EntityHistory list \<Rightarrow> error + EntityHistory list" where
  "pairLoop w language languages [] hvar langPackages = Inr langPackages"
| "pairLoop w language languages (p # packages) hvar langPackages =
     (if \<not> (contains language (pname p) \<and> matchPair (pname p))
      then pairLoop w language languages packages hvar langPackages
      else if excluded languages (rmPrefix (pname p))
      then pairLoop w language languages packages hvar langPackages
      else
        (case pairEntry w language (pname p) hvar of
           Inl e \<Rightarrow> Inl e
         | Inr hist \<Rightarrow>
             pairLoop w language languages packages (Some hist)
               (langPackages @ [\<lparr>name = rmPrefix (pname p), history = hist\<rparr>])))"

definition pairHistory ::
  "world \<Rightarrow> string \<Rightarrow> string list \<Rightarrow> package list \<Rightarrow> error + EntityHistory list" where
  "pairHistory w language languages packages = pairLoop w language languages packages None []"

subsection \<open>monoData\<close>

definition pairLocations :: "string list" where
  "pairLocations = [''incubator'', ''nursery'', ''staging'', ''trunk'']"

definition langLocations :: "string list" where
  "langLocations = [''languages'', ''incubator'']"

text \<open>
  \<^verbatim>\<open>re.match(r"apertium-\w+$", s)\<close>: after the prefix, the longest run of word
  characters, not empty, must end the string; \<^verbatim>\<open>$\<close> also matches before a line
  feed that ends the string.
\<close>

definition matchMono :: "string \<Rightarrow> bool" where
  "matchMono s =
     (prefix ''apertium-'' s \<and>
      (let rest = drop (length ''apertium-'') s;
           w1 = takeWhile isWord rest;
           r1 = dropWhile isWord rest in
       w1 \<noteq> [] \<and> (r1 = [] \<or> r1 = newline)))"

text \<open>Lines 248-253.\<close>

definition fileTypeOf :: "string \<Rightarrow> string" where
  "fileTypeOf extension =
     (if extension = ''lexc'' then extension
      else if extension = ''dix'' then ''monodix''
      else ''metamonodix'')"

text \<open>
  Lines 266-269 and 376-379: the first statistic of the kind asked for sets the variable
  \<^verbatim>\<open>stems\<close>, here \<open>stemsVar\<close>; when there is none the variable keeps the value of
  the iteration before (None: unbound). Lines 270-273 and 359-362 do the same for
  \<^verbatim>\<open>location\<close>.
\<close>

fun findStat :: "string \<Rightarrow> statistic list \<Rightarrow> int option \<Rightarrow> int option" where
  "findStat kind [] stemsVar = stemsVar"
| "findStat kind (st # stats) stemsVar =
     (if stat_kind st = kind then Some (stat_value st) else findStat kind stats stemsVar)"

fun findLocation :: "string list \<Rightarrow> string list \<Rightarrow> string option \<Rightarrow> string option" where
  "findLocation locs [] locVar = locVar"
| "findLocation locs (topic # ts) locVar =
     (if rmPrefix topic \<in> set locs then Some (rmPrefix topic) else findLocation locs ts locVar)"

text \<open>\<^verbatim>\<open>Counter(authors).items()\<close>: the authors in the order of their first
  occurrence, each with the number of its occurrences.\<close>

record contributor =
  user :: string
  cvalue :: nat

fun counterAdd :: "string \<Rightarrow> contributor list \<Rightarrow> contributor list" where
  "counterAdd a [] = [\<lparr>user = a, cvalue = 1\<rparr>]"
| "counterAdd a (c # cs) =
     (if user c = a then c\<lparr>cvalue := cvalue c + 1\<rparr> # cs else c # counterAdd a cs)"

definition Counter :: "string list \<Rightarrow> contributor list" where
  "Counter authors = foldl (\<lambda>acc a. counterAdd a acc) [] authors"

text \<open>Indexing an element, \<^verbatim>\<open>e[i]\<close>, raises IndexError beyond its children.\<close>

definition child :: "elem \<Rightarrow> nat \<Rightarrow> error + elem" where
  "child e i = (if i < length (children e) then Inr (children e ! i) else Inl IndexError)"

text \<open>\<^verbatim>\<open>row[0][0][0].text\<close>, as \<^verbatim>\<open>rmPrefix\<close> receives it: slicing None is a
  TypeError.\<close>

definition nameCellText :: "elem \<Rightarrow> error + string" where
  "nameCellText row =
     (case child row 0 of
        Inl e \<Rightarrow> Inl e
      | Inr a \<Rightarrow>
          (case child a 0 of
             Inl e \<Rightarrow> Inl e
           | Inr b \<Rightarrow>
               (case child b 0 of
                  Inl e \<Rightarrow> Inl e
                | Inr c \<Rightarrow> (case etext c of None \<Rightarrow> Inl TypeError | Some t \<Rightarrow> Inr t))))"

text \<open>\<^verbatim>\<open>row[stateCol].text.strip()\<close>: None has no \<^verbatim>\<open>strip\<close>.\<close>

definition stateCellText :: "elem \<Rightarrow> nat \<Rightarrow> error + string" where
  "stateCellText row col =
     (case child row col of
        Inl e \<Rightarrow> Inl e
      | Inr c \<Rightarrow> (case etext c of None \<Rightarrow> Inl AttributeError | Some t \<Rightarrow> Inr (strip t)))"

text \<open>Lines 323-325.\<close>

definition stateCol :: "string \<Rightarrow> nat" where
  "stateCol langFamily = (if langFamily = ''celtic'' then 7 else 6)"

text \<open>
  Lines 327-331: the loop over the rows of the table; \<open>stateVar\<close> is the variable
  \<^verbatim>\<open>state\<close>. A row of another language sets it to \<^verbatim>\<open>"unknown"\<close>.
\<close>

fun findState :: "nat \<Rightarrow> string \<Rightarrow> elem list \<Rightarrow> string option \<Rightarrow> error + string option" where
  "findState col language [] stateVar = Inr stateVar"
| "findState col language (row # rows) stateVar =
     (case nameCellText row of
        Inl e \<Rightarrow> Inl e
      | Inr t \<Rightarrow>
          (if rmPrefix t = language
           then (case stateCellText row col of Inl e \<Rightarrow> Inl e | Inr s \<Rightarrow> Inr (Some s))
           else findState col language rows (Some ''unknown'')))"

text \<open>The records appended to \<^verbatim>\<open>data\<close> by monoData: the keys
  \<^verbatim>\<open>lang, state, stems, location, contributors\<close>.\<close>

record monoRecord =
  lang :: string
  state :: string
  mstems :: int
  location :: string
  contributors :: "contributor list"

text \<open>The three variables that live on from one iteration of monoData to the next.\<close>

record monoVars =
  stemsVar :: "int option"
  locVar :: "string option"
  stateVar :: "string option"

text \<open>
  Lines 244-341, the body of the loop for a package that passed the filter. The branch
  of \<^verbatim>\<open>updatemailmap\<close> (lines 286-306) only prints and is left out.
\<close>

definition monoEntry ::
  "world \<Rightarrow> string \<Rightarrow> package \<Rightarrow> monoVars \<Rightarrow> error + monoRecord \<times> monoVars" where
  "monoEntry w langFamily p vars =
     (let dirName = pname p; language = rmPrefix dirName in
      case prepRepo w dirName of
        Inl e \<Rightarrow> Inl e
      | Inr _ \<Rightarrow>
      (let extension = fileExt w language; fileType = fileTypeOf extension in
       case statsService w
              (''https://apertium.projectjj.com/stats-service/'' @ dirName @ ''/'' @ fileType @ ''/'') of
         None \<Rightarrow> Inl StatsServiceError
       | Some stats \<Rightarrow>
       (let sv = findStat ''Stems'' stats (stemsVar vars);
            lv = findLocation langLocations (topics p) (locVar vars) in
        case gitLogAuthors w dirName (dictFile language extension) of
          None \<Rightarrow> Inl CalledProcessError
        | Some lines \<Rightarrow>
        (case pop (split newline lines) of
           Inl e \<Rightarrow> Inl e
         | Inr authors \<Rightarrow>
         (case wikiTable w (''http://wiki.apertium.org/wiki/'' @ langFamily @ ''_languages'') of
            None \<Rightarrow> Inl WikiError
          | Some rows \<Rightarrow>
          (case findState (stateCol langFamily) language (drop 2 (children rows)) (stateVar vars) of
             Inl e \<Rightarrow> Inl e
           | Inr stv \<Rightarrow>
           (case (stv, sv, lv) of
              (Some st, Some n, Some loc) \<Rightarrow>
                Inr (\<lparr>lang = language, state = st, mstems = n,
                      location = dirName @ '' ('' @ loc @ '')'',
                      contributors = Counter authors\<rparr>,
                     \<lparr>stemsVar = sv, locVar = lv, stateVar = stv\<rparr>)
            | _ \<Rightarrow> Inl UnboundLocalError)))))))"

fun monoLoop ::
  "world \<Rightarrow> string list \<Rightarrow> string \<Rightarrow> package list \<Rightarrow> monoVars \<Rightarrow> monoRecord list
     \<Rightarrow> error + monoRecord list" where
  "monoLoop w languages langFamily [] vars data = Inr data"
| "monoLoop w languages langFamily (p # packages) vars data =
     (if \<not> (matchMono (pname p) \<and> rmPrefix (pname p) \<in> set languages)
      then monoLoop w languages langFamily packages vars data
      else
        (case monoEntry w langFamily p vars of
           Inl e \<Rightarrow> Inl e
         | Inr (r, vars') \<Rightarrow> monoLoop w languages langFamily packages vars' (data @ [r])))"

definition monoData ::
  "world \<Rightarrow> package list \<Rightarrow> string list \<Rightarrow> string \<Rightarrow> error + monoRecord list" where
  "monoData w packages languages langFamily =
     monoLoop w languages langFamily packages
       \<lparr>stemsVar = None, locVar = None, stateVar = None\<rparr> []"

subsection \<open>pairData\<close>

text \<open>The records appended by pairData: the keys \<^verbatim>\<open>langs, location, stems\<close>.
  \<^verbatim>\<open>langs\<close> is the list of a Python set, whose order is not fixed: a set here.\<close>

record pairRecord =
  langs :: "string set"
  plocation :: string
  pstems :: int

text \<open>Lines 359-380, the body of the loop for a package that is not passed over.\<close>

definition pairDataEntry ::
  "world \<Rightarrow> package \<Rightarrow> string option \<Rightarrow> int option
     \<Rightarrow> error + pairRecord \<times> string option \<times> int option" where
  "pairDataEntry w p lv0 sv0 =
     (let pairName = rmPrefix (pname p);
          pairSet = set (split ''-'' pairName);
          lv = findLocation pairLocations (topics p) lv0 in
      case statsService w
             (''https://apertium.projectjj.com/stats-service/apertium-'' @ pairName @ ''/bidix'') of
        None \<Rightarrow> Inl StatsServiceError
      | Some stats \<Rightarrow>
          (let sv = findStat ''Entries'' stats sv0 in
           case (lv, sv) of
             (Some loc, Some n) \<Rightarrow> Inr (\<lparr>langs = pairSet, plocation = loc, pstems = n\<rparr>, lv, sv)
           | _ \<Rightarrow> Inl UnboundLocalError))"

fun pairDataLoop ::
  "world \<Rightarrow> string list \<Rightarrow> package list \<Rightarrow> string option \<Rightarrow> int option \<Rightarrow> pairRecord list
     \<Rightarrow> error + pairRecord list" where
  "pairDataLoop w languages [] lv sv data = Inr data"
| "pairDataLoop w languages (p # packages) lv sv data =
     (if \<not> matchPair (pname p) then pairDataLoop w languages packages lv sv data
      else if excluded languages (rmPrefix (pname p))
      then pairDataLoop w languages packages lv sv data
      else
        (case pairDataEntry w p lv sv of
           Inl e \<Rightarrow> Inl e
         | Inr (r, lv', sv') \<Rightarrow> pairDataLoop w languages packages lv' sv' (data @ [r])))"

definition pairData :: "world \<Rightarrow> package list \<Rightarrow> string list \<Rightarrow> error + pairRecord list" where
  "pairData w packages languages = pairDataLoop w languages packages None None []"

section \<open>Vocabulary of the statements\<close>

text \<open>The packages for which pairHistory reaches line 167, and those for which pairData
  reaches line 359.\<close>

definition accepted :: "string \<Rightarrow> string list \<Rightarrow> package \<Rightarrow> bool" where
  "accepted language languages p =
     (contains language (pname p) \<and> matchPair (pname p) \<and>
      \<not> excluded languages (rmPrefix (pname p)))"

definition acceptedData :: "string list \<Rightarrow> package \<Rightarrow> bool" where
  "acceptedData languages p =
     (matchPair (pname p) \<and> \<not> excluded languages (rmPrefix (pname p)))"

text \<open>A commit line whose commit the history \<open>hist\<close> holds already.\<close>

definition recorded :: "CommitRecord list \<Rightarrow> string \<Rightarrow> bool" where
  "recorded hist c = (3 \<le> length (split ''<>'' c) \<and> seen (split ''<>'' c ! 0) hist)"

text \<open>The history that the persisted file of \<open>language\<close> gives for the entity \<open>nm\<close>
  at the start of a run.\<close>

definition persistedHistory :: "world \<Rightarrow> string \<Rightarrow> string \<Rightarrow> CommitRecord list" where
  "persistedHistory w language nm =
     (case readHistory w language nm None of Inr (Some hist) \<Rightarrow> hist | _ \<Rightarrow> [])"

text \<open>
  Nothing new for the entity \<open>nm\<close>, tracked as \<open>file\<close> in the repository \<open>dirName\<close>:
  the repository is there, the persisted file gives a history, git answers, and every
  commit it reports (the last line apart) is recorded in that history.
\<close>

definition upToDate :: "world \<Rightarrow> string \<Rightarrow> string \<Rightarrow> string \<Rightarrow> string \<Rightarrow> bool" where
  "upToDate w language nm dirName file =
     (cloneable w dirName \<and>
      (case readHistory w language nm None of
         Inr (Some hist) \<Rightarrow>
           (case walk w dirName file of
              Inl e \<Rightarrow> False
            | Inr raw \<Rightarrow> list_all (recorded hist) (butlast raw))
       | _ \<Rightarrow> False))"

text \<open>The world after the script has written \<open>entries\<close> to the persisted file of
  \<open>language\<close> (lines 470-473); nothing else changes.\<close>

definition written :: "world \<Rightarrow> string \<Rightarrow> EntityHistory list \<Rightarrow> world" where
  "written w language entries = w\<lparr>jsonFile := (jsonFile w)(language := Parsed entries)\<rparr>"

text \<open>
  The number of iterations of the merge loop that end in the \<^verbatim>\<open>continue\<close> of lines
  115 and 213 (the sha is in the history already) and in that of lines 131, 140 and 225
  (the counter failed): the recursion of \<open>mergeCommits\<close>, counting.
\<close>

fun skips ::
  "(string list \<Rightarrow> error + int option) \<Rightarrow> CommitRecord list \<Rightarrow> string list \<Rightarrow> nat \<times> nat" where
  "skips cnt hist [] = (0, 0)"
| "skips cnt hist (commit # commits) =
     (let data = split ''<>'' commit in
      if length data < 3 then (0, 0)
      else if seen (data ! 0) hist
      then (case skips cnt hist commits of (a, f) \<Rightarrow> (Suc a, f))
      else
        (case cnt data of
           Inl e \<Rightarrow> (0, 0)
         | Inr None \<Rightarrow> (case skips cnt hist commits of (a, f) \<Rightarrow> (a, Suc f))
         | Inr (Some n) \<Rightarrow>
             skips cnt
               (hist @ [\<lparr>sha = data ! 0, author = data ! 1, date = data ! 2, stems = n\<rparr>])
               commits))"

text \<open>A row of the wiki table whose name cell can be read and names another language.\<close>

definition otherLanguage :: "string \<Rightarrow> elem \<Rightarrow> bool" where
  "otherLanguage language row =
     (case nameCellText row of Inl e \<Rightarrow> False | Inr t \<Rightarrow> rmPrefix t \<noteq> language)"

section \<open>Example worlds\<close>

text \<open>
  The worlds at which the theorems below are instantiated. git reports two commits,
  \<open>a1\<close> by Ann and the older \<open>b2\<close> by Bob; both counters fail on \<open>b2\<close>; the wiki table
  has the two header rows, a row for \<open>kir\<close> and a row for \<open>tat\<close>.
\<close>

definition exampleLog :: string where
  "exampleLog =
     ''a1<>Ann<>2020-02-02<>'' @ newline @ newline @ ''f.dix'' @ newline @
     ''b2<>Bob<>2020-01-01<>'' @ newline @ newline @ ''f.dix'' @ newline"

definition lineA :: string where
  "lineA = ''a1<>Ann<>2020-02-02<>f.dix''"

definition lineB :: string where
  "lineB = ''b2<>Bob<>2020-01-01<>f.dix''"

definition recA :: CommitRecord where
  "recA = \<lparr>sha = ''a1'', author = ''Ann'', date = ''2020-02-02'', stems = 5\<rparr>"

definition recB :: CommitRecord where
  "recB = \<lparr>sha = ''b2'', author = ''Bob'', date = ''2020-01-01'', stems = 4\<rparr>"

definition nameCell :: "string \<Rightarrow> elem" where
  "nameCell nm = Elem None [Elem None [Elem (Some nm) []]]"

definition cell :: "string \<Rightarrow> elem" where
  "cell t = Elem (Some t) []"

definition rowKir :: elem where
  "rowKir =
     Elem None [nameCell ''apertium-kir'', cell ''1'', cell ''2'', cell ''3'', cell ''4'',
                cell ''5'', cell ''k6'', cell ''k7'']"

definition rowTat :: elem where
  "rowTat =
     Elem None [nameCell ''apertium-tat'', cell ''1'', cell ''2'', cell ''3'', cell ''4'',
                cell ''5'', cell '' six '', cell '' seven '']"

definition exampleTable :: elem where
  "exampleTable = Elem None [Elem None [], Elem None [], rowKir, rowTat]"

definition exampleWorld :: world where
  "exampleWorld =
     \<lparr>jsonFile = (\<lambda>language. Absent),
      cloneable = (\<lambda>repo. True),
      globDict = (\<lambda>language. [''apertium-'' @ language @ ''.'' @ language @ ''.dix'']),
      gitLogCommits = (\<lambda>dir file. Some exampleLog),
      gitLogAuthors = (\<lambda>dir file. Some (''Ann'' @ newline @ ''Bob'' @ newline @ ''Ann'' @ newline)),
      rawContent = (\<lambda>url. url),
      countLexcStems = (\<lambda>text. if contains ''/b2/'' text then None else Some 7),
      countDixStems = (\<lambda>url bidix. if contains ''/b2/'' url then DixFailure
                                     else DixInfo (if bidix then 20 else 10)),
      statsService = (\<lambda>url. Some [\<lparr>stat_kind = ''Stems'', stat_value = 100\<rparr>,
                                    \<lparr>stat_kind = ''Entries'', stat_value = 200\<rparr>]),
      wikiTable = (\<lambda>url. Some exampleTable)\<rparr>"

text \<open>A second run: the persisted file of every language holds both commits for the
  language \<open>tat\<close> and for the pair \<open>tat-kir\<close>.\<close>

definition persistedWorld :: world where
  "persistedWorld =
     exampleWorld\<lparr>jsonFile := (\<lambda>language.
        Parsed [\<lparr>name = ''tat'', history = [recB, recA]\<rparr>,
                \<lparr>name = ''tat-kir'', history = [recA, recB]\<rparr>])\<rparr>"

text \<open>A run after the commit \<open>a1\<close>: the persisted file records \<open>b2\<close> for \<open>tat\<close>.\<close>

definition partialWorld :: world where
  "partialWorld =
     exampleWorld\<lparr>jsonFile := (\<lambda>language. Parsed [\<lparr>name = ''tat'', history = [recB]\<rparr>])\<rparr>"

definition recA10 :: CommitRecord where
  "recA10 = \<lparr>sha = ''a1'', author = ''Ann'', date = ''2020-02-02'', stems = 10\<rparr>"

definition recA20 :: CommitRecord where
  "recA20 = \<lparr>sha = ''a1'', author = ''Ann'', date = ''2020-02-02'', stems = 20\<rparr>"

text \<open>A persisted file that is not valid UTF-8, as one cut inside the bytes of a
  character of an author's name: decoding it raises UnicodeDecodeError.\<close>

definition undecodableWorld :: world where
  "undecodableWorld = exampleWorld\<lparr>jsonFile := (\<lambda>language. Raising UnicodeDecodeError)\<rparr>"

text \<open>A persisted file whose history of \<open>tat\<close> holds the commit \<open>a1\<close> twice.\<close>

definition duplicateWorld :: world where
  "duplicateWorld =
     exampleWorld\<lparr>jsonFile := (\<lambda>language.
        Parsed [\<lparr>name = ''tat'', history = [recA, recA]\<rparr>])\<rparr>"

text \<open>
  A repository \<open>apertium-xyz\<close> whose only file of the pattern is a \<^verbatim>\<open>.twol\<close> file.
  In \<open>unknownWorld\<close> the stats service answers for the type \<^verbatim>\<open>metamonodix\<close> only and
  git answers; in \<open>unknownWorldGit\<close> git fails on the file
  \<^verbatim>\<open>apertium-xyz.xyz.unknown\<close>, which the repository does not have.
\<close>

definition unknownWorld :: world where
  "unknownWorld =
     exampleWorld\<lparr>globDict := (\<lambda>language. [''apertium-'' @ language @ ''.'' @ language @ ''.twol'']),
       statsService := (\<lambda>url.
         if url = ''https://apertium.projectjj.com/stats-service/apertium-xyz/metamonodix/''
         then Some [\<lparr>stat_kind = ''Stems'', stat_value = 100\<rparr>] else None)\<rparr>"

definition unknownWorldGit :: world where
  "unknownWorldGit =
     unknownWorld\<lparr>gitLogAuthors := (\<lambda>dir file.
        if file = ''apertium-xyz.xyz.unknown'' then None else Some '''')\<rparr>"

text \<open>A world in which git knows the dictionary of a pair under the name
  \<^verbatim>\<open>apertium-tt-ky.tt-ky.dix\<close> only.\<close>

definition aliasWorld :: world where
  "aliasWorld =
     exampleWorld\<lparr>gitLogCommits := (\<lambda>dir file.
        if file = ''apertium-tt-ky.tt-ky.dix'' then gitLogCommits exampleWorld dir file else None)\<rparr>"

section \<open>Properties of the merge\<close>

subsection \<open>The primitives\<close>

lemma seen_iff: "seen s hist \<longleftrightarrow> s \<in> sha ` set hist"
  by (auto simp: seen_def list_ex_iff)

lemma splitAcc_nonempty: "splitAcc sep acc s \<noteq> []"
  by (induction sep acc s rule: splitAcc.induct) auto

lemma split_nonempty: "split sep s \<noteq> []"
  by (simp add: split_def splitAcc_nonempty)

text \<open>The walk never returns the empty list, so \<^verbatim>\<open>commits.pop()\<close> never raises.\<close>

lemma walk_nonempty: "walk w d f = Inr raw \<Longrightarrow> raw \<noteq> []"
  by (auto simp: walk_def split_nonempty split: option.splits)

lemma monoCount_no_error: "4 \<le> length d \<Longrightarrow> monoCount w l e d \<noteq> Inl x"
  by (auto simp: monoCount_def Let_def split: dix_info.splits)

lemma pairCount_no_error: "4 \<le> length d \<Longrightarrow> pairCount w n d \<noteq> Inl x"
  by (auto simp: pairCount_def Let_def split: dix_info.splits)

lemma scanOldFile_None_Some:
  "scanOldFile nm es None = Some h \<Longrightarrow> scanOldFile nm es hv = Some h"
  by (cases es) auto

lemma readHistory_None_Some:
  "readHistory w l nm None = Inr (Some h) \<Longrightarrow> readHistory w l nm hv = Inr (Some h)"
  by (auto simp: readHistory_def intro: scanOldFile_None_Some split: persisted.splits)

subsection \<open>The loop\<close>


text \<open>The loop only appends.\<close>

lemma mergeCommits_extends:
  "mergeCommits cnt hist commits = Inr out \<Longrightarrow> prefix hist out"
proof (induction commits arbitrary: hist)
  case Nil
  then show ?case by simp
next
  case (Cons c commits)
  let ?d = "split ''<>'' c"
  show ?case
  proof (cases "seen (?d ! 0) hist \<or> cnt ?d = Inr None")
    case True
    with Cons.prems have "mergeCommits cnt hist commits = Inr out"
      by (auto simp: Let_def split: if_splits)
    then show ?thesis by (rule Cons.IH)
  next
    case False
    with Cons.prems obtain n where
      "mergeCommits cnt (hist @ [\<lparr>sha = ?d ! 0, author = ?d ! 1, date = ?d ! 2, stems = n\<rparr>])
         commits = Inr out"
      by (auto simp: Let_def split: if_splits sum.splits option.splits)
    then have "prefix (hist @ [\<lparr>sha = ?d ! 0, author = ?d ! 1, date = ?d ! 2, stems = n\<rparr>]) out"
      by (rule Cons.IH)
    then show ?thesis by (rule append_prefixD)
  qed
qed

lemma mergeCommits_distinct:
  "mergeCommits cnt hist commits = Inr out \<Longrightarrow> distinct (map sha hist) \<Longrightarrow>
   distinct (map sha out)"
  by (induction commits arbitrary: hist)
     (auto simp: Let_def seen_iff split: if_splits sum.splits option.splits)

text \<open>A walk whose commits are all in the history, or fail to count, changes nothing.\<close>

lemma mergeCommits_nothing_new:
  assumes "\<forall>c\<in>set commits. 3 \<le> length (split ''<>'' c) \<and>
             (seen (split ''<>'' c ! 0) hist \<or> cnt (split ''<>'' c) = Inr None)"
  shows "mergeCommits cnt hist commits = Inr hist"
  using assms by (induction commits) (auto simp: Let_def)

text \<open>After a run, every commit of the walk is in the history or failed to count.\<close>

lemma mergeCommits_settled:
  "mergeCommits cnt hist commits = Inr out \<Longrightarrow>
   \<forall>c\<in>set commits. 3 \<le> length (split ''<>'' c) \<and>
     (seen (split ''<>'' c ! 0) out \<or> cnt (split ''<>'' c) = Inr None)"
proof (induction commits arbitrary: hist)
  case Nil
  then show ?case by simp
next
  case (Cons c commits)
  let ?d = "split ''<>'' c"
  from Cons.prems have len: "3 \<le> length ?d" by (auto simp: Let_def split: if_splits)
  show ?case
  proof (cases "seen (?d ! 0) hist \<or> cnt ?d = Inr None")
    case True
    with Cons.prems have m: "mergeCommits cnt hist commits = Inr out"
      by (auto simp: Let_def split: if_splits)
    from mergeCommits_extends[OF m] have "set hist \<subseteq> set out" by (rule set_mono_prefix)
    with True have "seen (?d ! 0) out \<or> cnt ?d = Inr None" by (auto simp: seen_iff)
    with len Cons.IH[OF m] show ?thesis by simp
  next
    case False
    with Cons.prems obtain n where
      m: "mergeCommits cnt (hist @ [\<lparr>sha = ?d ! 0, author = ?d ! 1, date = ?d ! 2, stems = n\<rparr>])
            commits = Inr out"
      by (auto simp: Let_def split: if_splits sum.splits option.splits)
    from mergeCommits_extends[OF m]
    have "set (hist @ [\<lparr>sha = ?d ! 0, author = ?d ! 1, date = ?d ! 2, stems = n\<rparr>]) \<subseteq> set out"
      by (rule set_mono_prefix)
    then have "seen (?d ! 0) out" by (force simp: seen_iff)
    with len Cons.IH[OF m] show ?thesis by simp
  qed
qed

lemma mergeCommits_twice:
  "mergeCommits cnt hist commits = Inr out \<Longrightarrow> mergeCommits cnt out commits = Inr out"
  by (rule mergeCommits_nothing_new) (rule mergeCommits_settled)

lemma mergeRaw_twice:
  "mergeRaw cnt hvar raw = Inr out \<Longrightarrow> mergeRaw cnt (Some out) raw = Inr out"
  by (auto simp: mergeRaw_def split: sum.splits option.splits if_splits
           intro: mergeCommits_twice)

text \<open>Where the records of the result come from.\<close>

lemma mergeCommits_origin:
  "mergeCommits cnt hist cs = Inr out \<Longrightarrow> r \<in> set out \<Longrightarrow>
   r \<in> set hist \<or>
   (\<exists>c\<in>set cs. \<exists>n. cnt (split ''<>'' c) = Inr (Some n) \<and>
      r = \<lparr>sha = split ''<>'' c ! 0, author = split ''<>'' c ! 1,
            date = split ''<>'' c ! 2, stems = n\<rparr>)"
proof (induction cs arbitrary: hist)
  case Nil
  then show ?case by simp
next
  case (Cons c cs)
  let ?d = "split ''<>'' c"
  show ?case
  proof (cases "seen (?d ! 0) hist \<or> cnt ?d = Inr None")
    case True
    with Cons.prems have "mergeCommits cnt hist cs = Inr out"
      by (auto simp: Let_def split: if_splits)
    from Cons.IH[OF this Cons.prems(2)] show ?thesis by auto
  next
    case False
    with Cons.prems obtain n where n: "cnt ?d = Inr (Some n)" and
      "mergeCommits cnt (hist @ [\<lparr>sha = ?d ! 0, author = ?d ! 1, date = ?d ! 2, stems = n\<rparr>])
         cs = Inr out"
      by (auto simp: Let_def split: if_splits sum.splits option.splits)
    from Cons.IH[OF this(2) Cons.prems(2)] n show ?thesis by auto
  qed
qed

text \<open>Every iteration appends a record or is counted by \<open>skips\<close>.\<close>

lemma mergeCommits_length:
  "mergeCommits cnt hist cs = Inr out \<Longrightarrow>
   length out + (fst (skips cnt hist cs) + snd (skips cnt hist cs)) = length hist + length cs"
proof (induction cs arbitrary: hist)
  case Nil
  then show ?case by simp
next
  case (Cons c cs)
  let ?d = "split ''<>'' c"
  from Cons.prems have len: "\<not> length ?d < 3" by (auto simp: Let_def split: if_splits)
  show ?case
  proof (cases "seen (?d ! 0) hist")
    case True
    with Cons.prems len have "mergeCommits cnt hist cs = Inr out" by (simp add: Let_def)
    from Cons.IH[OF this] True len show ?thesis
      by (simp add: Let_def case_prod_beta)
  next
    case False
    show ?thesis
    proof (cases "cnt ?d")
      case (Inl e)
      with Cons.prems len False show ?thesis by (simp add: Let_def)
    next
      case (Inr r)
      show ?thesis
      proof (cases r)
        case None
        with Inr Cons.prems len False have "mergeCommits cnt hist cs = Inr out"
          by (simp add: Let_def)
        from Cons.IH[OF this] None Inr False len show ?thesis
          by (simp add: Let_def case_prod_beta)
      next
        case (Some n)
        with Inr Cons.prems len False have
          "mergeCommits cnt (hist @ [\<lparr>sha = ?d ! 0, author = ?d ! 1, date = ?d ! 2, stems = n\<rparr>])
             cs = Inr out"
          by (simp add: Let_def)
        from Cons.IH[OF this] Some Inr False len show ?thesis
          by (simp add: Let_def)
      qed
    qed
  qed
qed

text \<open>The loop returns when every line has its fields and the counting step raises
  nothing.\<close>

lemma mergeCommits_total:
  "\<forall>c\<in>set cs. 3 \<le> length (split ''<>'' c) \<and> (\<forall>e. cnt (split ''<>'' c) \<noteq> Inl e) \<Longrightarrow>
   \<exists>out. mergeCommits cnt hist cs = Inr out"
proof (induction cs arbitrary: hist)
  case Nil
  then show ?case by simp
next
  case (Cons c cs)
  then have IH: "\<And>h. \<exists>out. mergeCommits cnt h cs = Inr out" by simp
  from Cons.prems have c: "3 \<le> length (split ''<>'' c)" "\<forall>e. cnt (split ''<>'' c) \<noteq> Inl e"
    by simp_all
  show ?case
  proof (cases "cnt (split ''<>'' c)")
    case (Inl e)
    with c show ?thesis by simp
  next
    case (Inr r)
    with c IH show ?thesis by (cases r) (simp_all add: Let_def)
  qed
qed

text \<open>The shas of the result: those of the history and those of the commits that
  count.\<close>

lemma mergeCommits_shas:
  "mergeCommits cnt hist cs = Inr out \<Longrightarrow>
   sha ` set out = sha ` set hist \<union>
     {split ''<>'' c ! 0 | c. c \<in> set cs \<and> (\<exists>n. cnt (split ''<>'' c) = Inr (Some n))}"
proof (induction cs arbitrary: hist)
  case Nil
  then show ?case by simp
next
  case (Cons c cs)
  let ?d = "split ''<>'' c"
  let ?S = "\<lambda>cs. {split ''<>'' c ! 0 | c. c \<in> set cs \<and> (\<exists>n. cnt (split ''<>'' c) = Inr (Some n))}"
  show ?case
  proof (cases "seen (?d ! 0) hist")
    case True
    with Cons.prems have "mergeCommits cnt hist cs = Inr out"
      by (auto simp: Let_def split: if_splits)
    from Cons.IH[OF this] have "sha ` set out = sha ` set hist \<union> ?S cs" .
    moreover have "?d ! 0 \<in> sha ` set hist" using True by (simp add: seen_iff)
    ultimately show ?thesis by auto
  next
    case False
    show ?thesis
    proof (cases "cnt ?d = Inr None")
      case True
      with Cons.prems False have "mergeCommits cnt hist cs = Inr out"
        by (auto simp: Let_def split: if_splits)
      from Cons.IH[OF this] have "sha ` set out = sha ` set hist \<union> ?S cs" .
      with True show ?thesis by auto
    next
      case nf: False
      with Cons.prems False obtain n where n: "cnt ?d = Inr (Some n)" and
        "mergeCommits cnt (hist @ [\<lparr>sha = ?d ! 0, author = ?d ! 1, date = ?d ! 2, stems = n\<rparr>])
           cs = Inr out"
        by (auto simp: Let_def split: if_splits sum.splits option.splits)
      from Cons.IH[OF this(2)] have
        "sha ` set out =
           sha ` set (hist @ [\<lparr>sha = ?d ! 0, author = ?d ! 1, date = ?d ! 2, stems = n\<rparr>]) \<union> ?S cs" .
      with n show ?thesis by auto
    qed
  qed
qed

lemma merge_from_empty:
  assumes "raw \<noteq> []"
    and "\<forall>c\<in>set (butlast raw). 3 \<le> length (split ''<>'' c) \<and> (\<forall>e. cnt (split ''<>'' c) \<noteq> Inl e)"
  shows "\<exists>hist. mergeRaw cnt (Some []) raw = Inr hist \<and>
     sha ` set hist =
       {split ''<>'' c ! 0 | c. c \<in> set (butlast raw) \<and> (\<exists>n. cnt (split ''<>'' c) = Inr (Some n))}"
proof -
  from mergeCommits_total[OF assms(2)] obtain out where
    o: "mergeCommits cnt [] (butlast raw) = Inr out" by blast
  from mergeCommits_shas[OF o] o assms(1) show ?thesis
    by (simp add: mergeRaw_def pop_def)
qed

subsection \<open>A run with nothing new\<close>

lemma upToDateD:
  assumes "upToDate w language nm dirName file"
  obtains hist raw where "readHistory w language nm None = Inr (Some hist)"
    and "persistedHistory w language nm = hist"
    and "cloneable w dirName" and "walk w dirName file = Inr raw"
    and "\<forall>c\<in>set (butlast raw). recorded hist c"
proof -
  from assms have c: "cloneable w dirName"
    by (simp add: upToDate_def)
  from assms obtain hist where r: "readHistory w language nm None = Inr (Some hist)"
    by (auto simp: upToDate_def split: sum.splits option.splits)
  from assms r obtain raw where k: "walk w dirName file = Inr raw"
    and l: "list_all (recorded hist) (butlast raw)"
    by (auto simp: upToDate_def split: sum.splits)
  from r have p: "persistedHistory w language nm = hist"
    by (simp add: persistedHistory_def)
  from l have "\<forall>c\<in>set (butlast raw). recorded hist c"
    by (simp add: list_all_iff)
  with r p c k show ?thesis by (rule that)
qed

lemma mergeRaw_all_seen:
  assumes "raw \<noteq> []" "\<forall>c\<in>set (butlast raw). recorded hist c"
  shows "mergeRaw cnt (Some hist) raw = Inr hist"
  using assms by (simp add: mergeRaw_def pop_def recorded_def mergeCommits_nothing_new)

lemma monoHistory_all_seen:
  assumes "upToDate w language language (''apertium-'' @ language)
             (dictFile language (fileExt w language))"
  shows "monoHistory w language =
           Inr \<lparr>name = language, history = persistedHistory w language language\<rparr>"
proof -
  from assms obtain hist raw where h: "readHistory w language language None = Inr (Some hist)"
    "persistedHistory w language language = hist" "cloneable w (''apertium-'' @ language)"
    "walk w (''apertium-'' @ language) (dictFile language (fileExt w language)) = Inr raw"
    "\<forall>c\<in>set (butlast raw). recorded hist c"
    by (rule upToDateD)
  from h(4) have "raw \<noteq> []" by (rule walk_nonempty)
  then have "mergeRaw (monoCount w language (fileExt w language)) (Some hist) raw = Inr hist"
    using h(5) by (rule mergeRaw_all_seen)
  with h(1-4) show ?thesis
    by (simp add: monoHistory_def prepRepo_def)
qed

lemma pairEntry_all_seen:
  assumes "upToDate w language (rmPrefix dirName) dirName
             (dictFile (dixName (rmPrefix dirName)) ''dix'')"
  shows "pairEntry w language dirName hvar = Inr (persistedHistory w language (rmPrefix dirName))"
proof -
  from assms obtain hist raw where
    h: "readHistory w language (rmPrefix dirName) None = Inr (Some hist)"
    "persistedHistory w language (rmPrefix dirName) = hist" "cloneable w dirName"
    "walk w dirName (dictFile (dixName (rmPrefix dirName)) ''dix'') = Inr raw"
    "\<forall>c\<in>set (butlast raw). recorded hist c"
    by (rule upToDateD)
  from h(4) have "raw \<noteq> []" by (rule walk_nonempty)
  then have "mergeRaw (pairCount w (rmPrefix dirName)) (Some hist) raw = Inr hist"
    using h(5) by (rule mergeRaw_all_seen)
  with h(2-4) readHistory_None_Some[OF h(1), of hvar] show ?thesis
    by (simp add: pairEntry_def prepRepo_def)
qed

lemma pairLoop_all_seen:
  assumes "\<forall>p\<in>set packages. accepted language languages p \<longrightarrow>
     upToDate w language (rmPrefix (pname p)) (pname p)
       (dictFile (dixName (rmPrefix (pname p))) ''dix'')"
  shows "pairLoop w language languages packages hvar acc =
     Inr (acc @ map (\<lambda>p. \<lparr>name = rmPrefix (pname p),
                           history = persistedHistory w language (rmPrefix (pname p))\<rparr>)
                 (filter (accepted language languages) packages))"
  using assms
proof (induction packages arbitrary: hvar acc)
  case Nil
  then show ?case by simp
next
  case (Cons p packages)
  show ?case
  proof (cases "accepted language languages p")
    case False
    then show ?thesis using Cons by (auto simp: accepted_def)
  next
    case True
    with Cons.prems have "upToDate w language (rmPrefix (pname p)) (pname p)
       (dictFile (dixName (rmPrefix (pname p))) ''dix'')"
      by simp
    then have e: "pairEntry w language (pname p) hvar =
        Inr (persistedHistory w language (rmPrefix (pname p)))"
      by (rule pairEntry_all_seen)
    from True have a: "contains language (pname p)" "matchPair (pname p)"
      "\<not> excluded languages (rmPrefix (pname p))"
      by (auto simp: accepted_def)
    show ?thesis
      using Cons.IH[of "Some (persistedHistory w language (rmPrefix (pname p)))"
          "acc @ [\<lparr>name = rmPrefix (pname p),
                    history = persistedHistory w language (rmPrefix (pname p))\<rparr>]"]
        Cons.prems True a e
      by simp
  qed
qed

text \<open>
  With a persisted file that holds the empty list the variable \<^verbatim>\<open>history\<close> is
  unbound at the first package that pairHistory does not pass over, and the call fails
  there. So \<open>scanOldFile\<close> never leaves to an iteration the list of the iteration
  before it, and the sharing of that list with the entry appended before plays no part.
\<close>

lemma mergeRaw_unbound: "\<exists>e. mergeRaw cnt None raw = Inl e"
  by (simp add: mergeRaw_def pop_def)

lemma pairEntry_unbound:
  assumes "jsonFile w language = Parsed []"
  shows "\<exists>e. pairEntry w language dirName None = Inl e"
proof -
  have "readHistory w language (rmPrefix dirName) None = Inr None"
    using assms by (simp add: readHistory_def)
  then show ?thesis
    using mergeRaw_unbound[of "pairCount w (rmPrefix dirName)"]
    by (auto simp: pairEntry_def Let_def split: sum.splits)
qed

lemma pairHistory_unbound:
  assumes "jsonFile w language = Parsed []"
    and "pairHistory w language languages packages = Inr out"
  shows "out = [] \<and> \<not> list_ex (accepted language languages) packages"
proof -
  have "pairLoop w language languages ps None acc = Inr out \<Longrightarrow>
      out = acc \<and> \<not> list_ex (accepted language languages) ps" for ps acc
  proof (induction ps)
    case Nil
    then show ?case by simp
  next
    case (Cons p ps)
    show ?case
    proof (cases "accepted language languages p")
      case False
      with Cons show ?thesis by (auto simp: accepted_def split: if_splits)
    next
      case True
      from pairEntry_unbound[OF assms(1)] obtain e where
        "pairEntry w language (pname p) None = Inl e" by blast
      with True Cons.prems show ?thesis by (simp add: accepted_def)
    qed
  qed
  with assms(2) show ?thesis by (simp add: pairHistory_def)
qed

subsection \<open>A run on the file written by the run before\<close>

lemma written_simps [simp]:
  "jsonFile (written w l es) l = Parsed es"
  "prepRepo (written w l es) = prepRepo w"
  "fileExt (written w l es) = fileExt w"
  "walk (written w l es) = walk w"
  "monoCount (written w l es) = monoCount w"
  "pairCount (written w l es) = pairCount w"
  by (auto simp: written_def prepRepo_def fileExt_def walk_def monoCount_def pairCount_def
      Let_def intro!: ext)

lemma scanOldFile_found:
  "\<forall>e\<in>set pre. name e \<noteq> nm \<Longrightarrow>
   scanOldFile nm (pre @ \<lparr>name = nm, history = h\<rparr> # rest) hv = Some h"
  by (induction pre arbitrary: hv) auto

lemma monoHistory_twice:
  assumes "monoHistory w language = Inr eh"
  shows "monoHistory (written w language (eh # others)) language = Inr eh"
proof -
  from assms obtain raw hist hv where
    p: "prepRepo w (''apertium-'' @ language) = Inr ()"
    and k: "walk w (''apertium-'' @ language) (dictFile language (fileExt w language)) = Inr raw"
    and m: "mergeRaw (monoCount w language (fileExt w language)) hv raw = Inr hist"
    and eh: "eh = \<lparr>name = language, history = hist\<rparr>"
    by (auto simp: monoHistory_def Let_def split: sum.splits)
  have r: "readHistory (written w language (eh # others)) language language None =
      Inr (Some hist)"
    using eh by (simp add: readHistory_def)
  from m have "mergeRaw (monoCount w language (fileExt w language)) (Some hist) raw = Inr hist"
    by (rule mergeRaw_twice)
  with p k r eh show ?thesis
    by (simp add: monoHistory_def)
qed

lemma pairEntry_twice:
  assumes "pairEntry w language dirName hvar = Inr h"
    and "\<forall>e\<in>set pre. name e \<noteq> rmPrefix dirName"
  shows "pairEntry (written w language (pre @ \<lparr>name = rmPrefix dirName, history = h\<rparr> # rest))
           language dirName hvar' = Inr h"
proof -
  from assms(1) obtain raw hv where
    p: "prepRepo w dirName = Inr ()"
    and k: "walk w dirName (dictFile (dixName (rmPrefix dirName)) ''dix'') = Inr raw"
    and m: "mergeRaw (pairCount w (rmPrefix dirName)) hv raw = Inr h"
    by (auto simp: pairEntry_def Let_def split: sum.splits)
  have r: "readHistory (written w language (pre @ \<lparr>name = rmPrefix dirName, history = h\<rparr> # rest))
             language (rmPrefix dirName) hvar' = Inr (Some h)"
    using assms(2) by (simp add: readHistory_def scanOldFile_found)
  from m have "mergeRaw (pairCount w (rmPrefix dirName)) (Some h) raw = Inr h"
    by (rule mergeRaw_twice)
  with p k r show ?thesis
    by (simp add: pairEntry_def)
qed

text \<open>
  C1 (idempotence of the merge). When git reports no commit beyond those the persisted
  history of an entity records, monoHistory returns that history unchanged, and
  pairHistory returns, for every pair it accepts, the persisted history of the pair
  unchanged: every commit is skipped, the records keep their author, date and stems,
  and nothing is appended. Moreover a run repeats itself, with the same walk and the
  same counters: monoHistory, run on a file whose first entry is the result it has
  returned, returns that result again; and so does the body of pairHistory for a pair,
  run on a file whose first entry of the name of the pair holds the history it has
  returned (a commit that failed to count is tried again, and fails again).
\<close>

theorem merge_idempotent:
  "(upToDate w language language (''apertium-'' @ language) (dictFile language (fileExt w language))
    \<longrightarrow> monoHistory w language =
          Inr \<lparr>name = language, history = persistedHistory w language language\<rparr>) \<and>
   ((\<forall>p\<in>set packages. accepted language languages p \<longrightarrow>
       upToDate w language (rmPrefix (pname p)) (pname p)
         (dictFile (dixName (rmPrefix (pname p))) ''dix''))
    \<longrightarrow> pairHistory w language languages packages =
          Inr (map (\<lambda>p. \<lparr>name = rmPrefix (pname p),
                          history = persistedHistory w language (rmPrefix (pname p))\<rparr>)
                (filter (accepted language languages) packages))) \<and>
   (monoHistory w language = Inr eh
    \<longrightarrow> monoHistory (written w language (eh # others)) language = Inr eh) \<and>
   (pairEntry w language dirName hvar = Inr h \<and> (\<forall>e\<in>set pre. name e \<noteq> rmPrefix dirName)
    \<longrightarrow> pairEntry (written w language (pre @ \<lparr>name = rmPrefix dirName, history = h\<rparr> # rest))
          language dirName hvar' = Inr h)"
proof (intro conjI impI)
  assume "upToDate w language language (''apertium-'' @ language)
            (dictFile language (fileExt w language))"
  then show "monoHistory w language =
      Inr \<lparr>name = language, history = persistedHistory w language language\<rparr>"
    by (rule monoHistory_all_seen)
next
  assume "\<forall>p\<in>set packages. accepted language languages p \<longrightarrow>
       upToDate w language (rmPrefix (pname p)) (pname p)
         (dictFile (dixName (rmPrefix (pname p))) ''dix'')"
  then show "pairHistory w language languages packages =
          Inr (map (\<lambda>p. \<lparr>name = rmPrefix (pname p),
                          history = persistedHistory w language (rmPrefix (pname p))\<rparr>)
                (filter (accepted language languages) packages))"
    unfolding pairHistory_def using pairLoop_all_seen[of packages language languages w None "[]"]
    by simp
next
  assume "monoHistory w language = Inr eh"
  then show "monoHistory (written w language (eh # others)) language = Inr eh"
    by (rule monoHistory_twice)
next
  assume "pairEntry w language dirName hvar = Inr h \<and>
    (\<forall>e\<in>set pre. name e \<noteq> rmPrefix dirName)"
  then show "pairEntry (written w language (pre @ \<lparr>name = rmPrefix dirName, history = h\<rparr> # rest))
          language dirName hvar' = Inr h"
    by (intro pairEntry_twice) auto
qed

text \<open>
  The theorem at a second run for \<open>tat\<close>, where the persisted file records both
  commits, with the stems counted then, although the counters now fail on \<open>b2\<close>; and
  at the run after a run that has found \<open>b2\<close> recorded for \<open>tat\<close>, has appended
  \<open>a1\<close>, and has counted \<open>a1\<close> but not \<open>b2\<close> for the pair.
\<close>

theorem merge_idempotent_witness:
  "monoHistory persistedWorld ''tat'' = Inr \<lparr>name = ''tat'', history = [recB, recA]\<rparr> \<and>
   pairHistory persistedWorld ''tat'' [''tat'', ''kir'']
     [\<lparr>pname = ''apertium-tat-kir'', topics = []\<rparr>, \<lparr>pname = ''apertium-kir-uzb'', topics = []\<rparr>] =
     Inr [\<lparr>name = ''tat-kir'', history = [recA, recB]\<rparr>] \<and>
   monoHistory partialWorld ''tat'' = Inr \<lparr>name = ''tat'', history = [recB, recA10]\<rparr> \<and>
   monoHistory
     (written partialWorld ''tat''
        [\<lparr>name = ''tat'', history = [recB, recA10]\<rparr>, \<lparr>name = ''tat-kir'', history = [recA20]\<rparr>])
     ''tat'' = Inr \<lparr>name = ''tat'', history = [recB, recA10]\<rparr> \<and>
   pairEntry partialWorld ''tat'' ''apertium-tat-kir'' None = Inr [recA20] \<and>
   pairEntry
     (written partialWorld ''tat''
        [\<lparr>name = ''tat'', history = [recB, recA10]\<rparr>, \<lparr>name = ''tat-kir'', history = [recA20]\<rparr>])
     ''tat'' ''apertium-tat-kir'' None = Inr [recA20]"
proof -
  let ?ps = "[\<lparr>pname = ''apertium-tat-kir'', topics = []\<rparr>,
              \<lparr>pname = ''apertium-kir-uzb'', topics = []\<rparr>]"
  let ?m = "\<lparr>name = ''tat'', history = [recB, recA10]\<rparr>"
  have a: "upToDate persistedWorld ''tat'' ''tat'' (''apertium-'' @ ''tat'')
             (dictFile ''tat'' (fileExt persistedWorld ''tat''))"
    by code_simp
  have b: "\<forall>p\<in>set ?ps. accepted ''tat'' [''tat'', ''kir''] p \<longrightarrow>
       upToDate persistedWorld ''tat'' (rmPrefix (pname p)) (pname p)
         (dictFile (dixName (rmPrefix (pname p))) ''dix'')"
    by code_simp
  have d: "persistedHistory persistedWorld ''tat'' ''tat'' = [recB, recA]"
    by code_simp
  have e: "map (\<lambda>p. \<lparr>name = rmPrefix (pname p),
                     history = persistedHistory persistedWorld ''tat'' (rmPrefix (pname p))\<rparr>)
             (filter (accepted ''tat'' [''tat'', ''kir'']) ?ps) =
           [\<lparr>name = ''tat-kir'', history = [recA, recB]\<rparr>]"
    by code_simp
  from merge_idempotent[where w = persistedWorld and language = "''tat''" and packages = ?ps
      and languages = "[''tat'', ''kir'']"] a b
  have first: "monoHistory persistedWorld ''tat'' =
          Inr \<lparr>name = ''tat'', history = persistedHistory persistedWorld ''tat'' ''tat''\<rparr> \<and>
        pairHistory persistedWorld ''tat'' [''tat'', ''kir''] ?ps =
          Inr (map (\<lambda>p. \<lparr>name = rmPrefix (pname p),
                     history = persistedHistory persistedWorld ''tat'' (rmPrefix (pname p))\<rparr>)
             (filter (accepted ''tat'' [''tat'', ''kir'']) ?ps))"
    by blast
  have m: "monoHistory partialWorld ''tat'' = Inr ?m"
    by code_simp
  have p: "pairEntry partialWorld ''tat'' ''apertium-tat-kir'' None = Inr [recA20]"
    by code_simp
  have n: "rmPrefix ''apertium-tat-kir'' = ''tat-kir''"
    "\<forall>e\<in>set [?m]. name e \<noteq> rmPrefix ''apertium-tat-kir''"
    by (simp_all add: rmPrefix_def)
  from merge_idempotent[where w = partialWorld and language = "''tat''" and eh = ?m
      and others = "[\<lparr>name = ''tat-kir'', history = [recA20]\<rparr>]"
      and dirName = "''apertium-tat-kir''" and hvar = None and h = "[recA20]"
      and pre = "[?m]" and rest = "[]" and hvar' = None] m p n(2)
  have second: "monoHistory
       (written partialWorld ''tat'' (?m # [\<lparr>name = ''tat-kir'', history = [recA20]\<rparr>]))
       ''tat'' = Inr ?m \<and>
     pairEntry
       (written partialWorld ''tat''
          ([?m] @ \<lparr>name = rmPrefix ''apertium-tat-kir'', history = [recA20]\<rparr> # []))
       ''tat'' ''apertium-tat-kir'' None = Inr [recA20]"
    by blast
  from first second m p show ?thesis unfolding d e n(1) by simp
qed

subsection \<open>Repeated shas\<close>

text \<open>What the search of the persisted file yields is the persisted history of the
  entity, or the value the variable had.\<close>

lemma scanOldFile_cases:
  "scanOldFile nm es hv = Some h \<Longrightarrow> scanOldFile nm es None = Some h \<or> hv = Some h"
  by (cases es) auto

lemma readHistory_cases:
  "readHistory w l nm hv = Inr (Some h) \<Longrightarrow> persistedHistory w l nm = h \<or> hv = Some h"
  by (auto simp: readHistory_def persistedHistory_def split: persisted.splits
           dest: scanOldFile_cases)

lemma mergeRaw_distinct:
  "mergeRaw cnt hv raw = Inr out \<Longrightarrow> (\<forall>h. hv = Some h \<longrightarrow> distinct (map sha h)) \<Longrightarrow>
   distinct (map sha out)"
  by (auto simp: mergeRaw_def split: sum.splits option.splits if_splits
           dest: mergeCommits_distinct)

lemma monoHistory_distinct:
  assumes "monoHistory w language = Inr eh"
    and "distinct (map sha (persistedHistory w language language))"
  shows "distinct (map sha (history eh))"
proof -
  from assms(1) obtain raw ext out hv' where
    r: "readHistory w language language None = Inr hv'"
    and m: "mergeRaw (monoCount w language ext) hv' raw = Inr out"
    and eh: "eh = \<lparr>name = language, history = out\<rparr>"
    by (auto simp: monoHistory_def Let_def split: sum.splits)
  have "\<forall>h. hv' = Some h \<longrightarrow> distinct (map sha h)"
    using assms(2) r by (auto dest: readHistory_cases)
  with m have "distinct (map sha out)" by (rule mergeRaw_distinct)
  with eh show ?thesis by simp
qed

lemma pairEntry_distinct:
  assumes "pairEntry w language dirName hv = Inr out"
    and "distinct (map sha (persistedHistory w language (rmPrefix dirName)))"
    and "\<forall>h. hv = Some h \<longrightarrow> distinct (map sha h)"
  shows "distinct (map sha out)"
proof -
  from assms(1) obtain raw hv' where
    r: "readHistory w language (rmPrefix dirName) hv = Inr hv'"
    and m: "mergeRaw (pairCount w (rmPrefix dirName)) hv' raw = Inr out"
    by (auto simp: pairEntry_def Let_def split: sum.splits)
  have "\<forall>h. hv' = Some h \<longrightarrow> distinct (map sha h)"
    using assms(2,3) r by (auto dest: readHistory_cases)
  with m show ?thesis by (rule mergeRaw_distinct)
qed

lemma pairLoop_distinct:
  "pairLoop w language languages packages hv acc = Inr out \<Longrightarrow>
   (\<forall>p\<in>set packages. accepted language languages p \<longrightarrow>
      distinct (map sha (persistedHistory w language (rmPrefix (pname p))))) \<Longrightarrow>
   (\<forall>h. hv = Some h \<longrightarrow> distinct (map sha h)) \<Longrightarrow>
   (\<forall>e\<in>set acc. distinct (map sha (history e))) \<Longrightarrow>
   (\<forall>e\<in>set out. distinct (map sha (history e)))"
proof (induction packages arbitrary: hv acc)
  case Nil
  then show ?case by simp
next
  case (Cons p packages)
  from Cons.prems(2) have rest: "\<forall>p\<in>set packages. accepted language languages p \<longrightarrow>
      distinct (map sha (persistedHistory w language (rmPrefix (pname p))))"
    by simp
  show ?case
  proof (cases "accepted language languages p")
    case False
    with Cons.prems(1) have "pairLoop w language languages packages hv acc = Inr out"
      by (auto simp: accepted_def split: if_splits)
    then show ?thesis using rest Cons.prems(3,4) by (rule Cons.IH)
  next
    case True
    with Cons.prems(1) obtain h where
      e: "pairEntry w language (pname p) hv = Inr h"
      and l: "pairLoop w language languages packages (Some h)
                (acc @ [\<lparr>name = rmPrefix (pname p), history = h\<rparr>]) = Inr out"
      by (auto simp: accepted_def split: if_splits sum.splits)
    from True Cons.prems(2)
    have "distinct (map sha (persistedHistory w language (rmPrefix (pname p))))"
      by simp
    with e have d: "distinct (map sha h)"
      using Cons.prems(3) by (rule pairEntry_distinct)
    show ?thesis
      using l rest by (rule Cons.IH) (use d Cons.prems(4) in auto)
  qed
qed

text \<open>
  C2 (no repeated shas), as amended. When the persisted history of the language repeats
  no sha, the history that monoHistory returns repeats none; when the persisted history
  of no pair that pairHistory accepts repeats a sha, no history that pairHistory returns
  repeats one; whatever the walk reports (also when it reports a commit twice). The
  merge never removes a record, so a repetition that the persisted history holds
  already is kept.
\<close>

theorem no_duplicate_shas:
  "(distinct (map sha (persistedHistory w language language)) \<longrightarrow>
      (\<forall>eh. monoHistory w language = Inr eh \<longrightarrow> distinct (map sha (history eh)))) \<and>
   ((\<forall>p\<in>set packages. accepted language languages p \<longrightarrow>
       distinct (map sha (persistedHistory w language (rmPrefix (pname p))))) \<longrightarrow>
      (\<forall>out. pairHistory w language languages packages = Inr out \<longrightarrow>
         (\<forall>eh\<in>set out. distinct (map sha (history eh)))))"
proof (intro conjI allI impI)
  fix eh
  assume "distinct (map sha (persistedHistory w language language))"
    and "monoHistory w language = Inr eh"
  then show "distinct (map sha (history eh))" by (intro monoHistory_distinct)
next
  fix out
  assume d: "\<forall>p\<in>set packages. accepted language languages p \<longrightarrow>
       distinct (map sha (persistedHistory w language (rmPrefix (pname p))))"
    and "pairHistory w language languages packages = Inr out"
  then have "pairLoop w language languages packages None [] = Inr out"
    by (simp add: pairHistory_def)
  then show "\<forall>eh\<in>set out. distinct (map sha (history eh))"
    using d by (rule pairLoop_distinct) auto
qed

text \<open>The theorem at a run that finds \<open>b2\<close> recorded for \<open>tat\<close>, and nothing for the
  pair, and appends \<open>a1\<close> to both.\<close>

theorem no_duplicate_shas_witness:
  "persistedHistory partialWorld ''tat'' ''tat'' = [recB] \<and>
   monoHistory partialWorld ''tat'' = Inr \<lparr>name = ''tat'', history = [recB, recA10]\<rparr> \<and>
   distinct (map sha [recB, recA10]) \<and>
   pairHistory partialWorld ''tat'' [''tat'', ''kir''] [\<lparr>pname = ''apertium-tat-kir'', topics = []\<rparr>] =
     Inr [\<lparr>name = ''tat-kir'', history = [recA20]\<rparr>] \<and>
   distinct (map sha [recA20])"
proof -
  let ?ps = "[\<lparr>pname = ''apertium-tat-kir'', topics = []\<rparr>]"
  have f: "persistedHistory partialWorld ''tat'' ''tat'' = [recB]"
    by code_simp
  have g: "distinct (map sha (persistedHistory partialWorld ''tat'' ''tat''))"
    by code_simp
  have k: "\<forall>p\<in>set ?ps. accepted ''tat'' [''tat'', ''kir''] p \<longrightarrow>
       distinct (map sha (persistedHistory partialWorld ''tat'' (rmPrefix (pname p))))"
    by code_simp
  have m: "monoHistory partialWorld ''tat'' = Inr \<lparr>name = ''tat'', history = [recB, recA10]\<rparr>"
    by code_simp
  have p: "pairHistory partialWorld ''tat'' [''tat'', ''kir''] ?ps =
           Inr [\<lparr>name = ''tat-kir'', history = [recA20]\<rparr>]"
    by code_simp
  from no_duplicate_shas[of partialWorld "''tat''" ?ps "[''tat'', ''kir'']"] g k m p
  have "distinct (map sha [recB, recA10]) \<and> distinct (map sha [recA20])"
    by simp
  with f m p show ?thesis by simp
qed

text \<open>
  The claim as first stated, for a persisted history that repeats a sha, fails: git
  reports the commits \<open>a1\<close> and \<open>b2\<close>, the persisted history holds \<open>a1\<close> twice, and
  so does the history returned.
\<close>

theorem no_duplicate_shas_counterexample:
  "monoHistory duplicateWorld ''tat'' = Inr \<lparr>name = ''tat'', history = [recA, recA]\<rparr> \<and>
   \<not> distinct (map sha (history \<lparr>name = ''tat'', history = [recA, recA]\<rparr>))"
  by code_simp

subsection \<open>Counting failures\<close>



subsection \<open>The last line of the walk\<close>

text \<open>
  C4 (the sentinel is discarded), as amended. When the last line of the walk is the
  empty line, the merge is the loop over the lines before it. If the loop returns, the
  length of the merged history is the length of the history it started from, plus the
  number of those lines, minus the number of those skipped as seen already or as
  failures of the counter; and every record of it is a record of the history it started
  from or the record of one of those lines, none of the sentinel.
\<close>

theorem sentinel_discard:
  assumes "raw \<noteq> []" and "last raw = ''''"
  shows "mergeRaw cnt (Some hist) raw = mergeCommits cnt hist (butlast raw) \<and>
    (\<forall>out. mergeCommits cnt hist (butlast raw) = Inr out \<longrightarrow>
       length out =
         length hist + length (butlast raw)
           - (fst (skips cnt hist (butlast raw)) + snd (skips cnt hist (butlast raw))) \<and>
       (\<forall>r\<in>set out. r \<in> set hist \<or>
          (\<exists>c\<in>set (butlast raw). \<exists>n. cnt (split ''<>'' c) = Inr (Some n) \<and>
             r = \<lparr>sha = split ''<>'' c ! 0, author = split ''<>'' c ! 1,
                   date = split ''<>'' c ! 2, stems = n\<rparr>)))"
proof (intro conjI allI impI ballI)
  show "mergeRaw cnt (Some hist) raw = mergeCommits cnt hist (butlast raw)"
    using assms(1) by (simp add: mergeRaw_def pop_def)
next
  fix out assume "mergeCommits cnt hist (butlast raw) = Inr out"
  from mergeCommits_length[OF this]
  show "length out =
         length hist + length (butlast raw)
           - (fst (skips cnt hist (butlast raw)) + snd (skips cnt hist (butlast raw)))"
    by arith
next
  fix out r assume "mergeCommits cnt hist (butlast raw) = Inr out" "r \<in> set out"
  then show "r \<in> set hist \<or>
          (\<exists>c\<in>set (butlast raw). \<exists>n. cnt (split ''<>'' c) = Inr (Some n) \<and>
             r = \<lparr>sha = split ''<>'' c ! 0, author = split ''<>'' c ! 1,
                   date = split ''<>'' c ! 2, stems = n\<rparr>)"
    by (rule mergeCommits_origin)
qed

text \<open>The theorem at the walk of the example, for \<open>tat\<close> with \<open>b2\<close> recorded: two
  commits, one of them skipped as seen, and a history of length 1 + 2 - 1.\<close>

theorem sentinel_discard_witness:
  "mergeRaw (monoCount exampleWorld ''tat'' ''dix'') (Some [recB]) [lineA, lineB, ''''] =
     Inr [recB, recA10] \<and>
   skips (monoCount exampleWorld ''tat'' ''dix'') [recB] [lineA, lineB] = (1, 0) \<and>
   length [recB, recA10] = length [recB] + length [lineA, lineB] - (1 + 0)"
proof -
  let ?cnt = "monoCount exampleWorld ''tat'' ''dix''"
  have n: "[lineA, lineB, ''''] \<noteq> []" "last [lineA, lineB, ''''] = ''''"
    by simp_all
  have b: "butlast [lineA, lineB, ''''] = [lineA, lineB]"
    by simp
  have m: "mergeCommits ?cnt [recB] [lineA, lineB] = Inr [recB, recA10]"
    by code_simp
  have s: "skips ?cnt [recB] [lineA, lineB] = (1, 0)"
    by code_simp
  from sentinel_discard[OF n, of ?cnt "[recB]"] m
  have "mergeRaw ?cnt (Some [recB]) [lineA, lineB, ''''] = Inr [recB, recA10] \<and>
        length [recB, recA10] =
          length [recB] + length [lineA, lineB]
            - (fst (skips ?cnt [recB] [lineA, lineB]) + snd (skips ?cnt [recB] [lineA, lineB]))"
    unfolding b by simp
  with s show ?thesis by simp
qed

text \<open>
  The claim as first stated takes the length of the merged history for the number of
  commits minus the number of those skipped. At the same walk the merged history has
  two records, and the two commits minus the one skipped are one.
\<close>

theorem sentinel_discard_counterexample:
  "last [lineA, lineB, ''''] = '''' \<and>
   mergeRaw (monoCount exampleWorld ''tat'' ''dix'') (Some [recB]) [lineA, lineB, ''''] =
     Inr [recB, recA10] \<and>
   skips (monoCount exampleWorld ''tat'' ''dix'') [recB] (butlast [lineA, lineB, '''']) = (1, 0) \<and>
   length [recB, recA10] \<noteq> length (butlast [lineA, lineB, '''']) - (1 + 0)"
  by code_simp

subsection \<open>No persisted file\<close>

text \<open>
  C6 (an absent or malformed persisted file is an empty history), as amended. When the
  persisted file of the language is absent, or is read and decoded and its text is not
  JSON (the two exceptions that lines 84 and 200 catch), reading it gives the empty
  history for every entity and raises nothing. The merge then processes the whole walk:
  where the repository is there, git answers and every line has its four fields,
  monoHistory (and the body of pairHistory for a pair) returns a history, and the shas
  of that history are those of the commits of the walk that the counter counts.
\<close>

theorem absent_or_malformed_is_empty:
  assumes "jsonFile w language = Absent \<or> jsonFile w language = Malformed"
  shows "readHistory w language nm hvar = Inr (Some []) \<and>
    (cloneable w (''apertium-'' @ language) \<and>
     walk w (''apertium-'' @ language) (dictFile language (fileExt w language)) = Inr raw \<and>
     (\<forall>c\<in>set (butlast raw). 4 \<le> length (split ''<>'' c))
     \<longrightarrow> (\<exists>hist. monoHistory w language = Inr \<lparr>name = language, history = hist\<rparr> \<and>
            sha ` set hist =
              {split ''<>'' c ! 0 | c. c \<in> set (butlast raw) \<and>
                 (\<exists>n. monoCount w language (fileExt w language) (split ''<>'' c) = Inr (Some n))})) \<and>
    (cloneable w dirName \<and>
     walk w dirName (dictFile (dixName (rmPrefix dirName)) ''dix'') = Inr raw' \<and>
     (\<forall>c\<in>set (butlast raw'). 4 \<le> length (split ''<>'' c))
     \<longrightarrow> (\<exists>hist. pairEntry w language dirName hvar = Inr hist \<and>
            sha ` set hist =
              {split ''<>'' c ! 0 | c. c \<in> set (butlast raw') \<and>
                 (\<exists>n. pairCount w (rmPrefix dirName) (split ''<>'' c) = Inr (Some n))}))"
proof (intro conjI impI)
  show rd: "readHistory w language nm hvar = Inr (Some [])" for nm hvar
    using assms by (auto simp: readHistory_def)
  {
    assume a: "cloneable w (''apertium-'' @ language) \<and>
     walk w (''apertium-'' @ language) (dictFile language (fileExt w language)) = Inr raw \<and>
     (\<forall>c\<in>set (butlast raw). 4 \<le> length (split ''<>'' c))"
    then have ne: "raw \<noteq> []" by (auto dest: walk_nonempty)
    have "\<forall>c\<in>set (butlast raw). 3 \<le> length (split ''<>'' c) \<and>
       (\<forall>e. monoCount w language (fileExt w language) (split ''<>'' c) \<noteq> Inl e)"
      using a monoCount_no_error by fastforce
    from merge_from_empty[OF ne this] a rd[of language None]
    show "\<exists>hist. monoHistory w language = Inr \<lparr>name = language, history = hist\<rparr> \<and>
            sha ` set hist =
              {split ''<>'' c ! 0 | c. c \<in> set (butlast raw) \<and>
                 (\<exists>n. monoCount w language (fileExt w language) (split ''<>'' c) = Inr (Some n))}"
      by (auto simp: monoHistory_def prepRepo_def)
  }
  {
    assume a: "cloneable w dirName \<and>
     walk w dirName (dictFile (dixName (rmPrefix dirName)) ''dix'') = Inr raw' \<and>
     (\<forall>c\<in>set (butlast raw'). 4 \<le> length (split ''<>'' c))"
    then have ne: "raw' \<noteq> []" by (auto dest: walk_nonempty)
    have "\<forall>c\<in>set (butlast raw'). 3 \<le> length (split ''<>'' c) \<and>
       (\<forall>e. pairCount w (rmPrefix dirName) (split ''<>'' c) \<noteq> Inl e)"
      using a pairCount_no_error by fastforce
    from merge_from_empty[OF ne this] a rd[of "rmPrefix dirName" hvar]
    show "\<exists>hist. pairEntry w language dirName hvar = Inr hist \<and>
            sha ` set hist =
              {split ''<>'' c ! 0 | c. c \<in> set (butlast raw') \<and>
                 (\<exists>n. pairCount w (rmPrefix dirName) (split ''<>'' c) = Inr (Some n))}"
      by (auto simp: pairEntry_def prepRepo_def)
  }
qed

text \<open>The theorem at the first run for \<open>tat\<close> and for the pair \<open>tat-kir\<close>: no
  persisted file, two commits, of which \<open>a1\<close> counts.\<close>

theorem absent_or_malformed_is_empty_witness:
  "jsonFile exampleWorld ''tat'' = Absent \<and>
   readHistory exampleWorld ''tat'' ''tat'' None = Inr (Some []) \<and>
   monoHistory exampleWorld ''tat'' = Inr \<lparr>name = ''tat'', history = [recA10]\<rparr> \<and>
   sha ` set [recA10] =
     {split ''<>'' c ! 0 | c. c \<in> set [lineA, lineB] \<and>
        (\<exists>n. monoCount exampleWorld ''tat'' ''dix'' (split ''<>'' c) = Inr (Some n))} \<and>
   pairEntry exampleWorld ''tat'' ''apertium-tat-kir'' None = Inr [recA20] \<and>
   sha ` set [recA20] =
     {split ''<>'' c ! 0 | c. c \<in> set [lineA, lineB] \<and>
        (\<exists>n. pairCount exampleWorld ''tat-kir'' (split ''<>'' c) = Inr (Some n))}"
proof -
  have j: "jsonFile exampleWorld ''tat'' = Absent"
    by code_simp
  have x: "fileExt exampleWorld ''tat'' = ''dix''" "rmPrefix ''apertium-tat-kir'' = ''tat-kir''"
    by code_simp+
  have c: "cloneable exampleWorld (''apertium-'' @ ''tat'')" "cloneable exampleWorld ''apertium-tat-kir''"
    by code_simp+
  have w: "walk exampleWorld (''apertium-'' @ ''tat'') (dictFile ''tat'' (fileExt exampleWorld ''tat'')) =
             Inr [lineA, lineB, '''']"
    "walk exampleWorld ''apertium-tat-kir'' (dictFile (dixName (rmPrefix ''apertium-tat-kir'')) ''dix'') =
             Inr [lineA, lineB, '''']"
    by code_simp+
  have l: "\<forall>c\<in>set (butlast [lineA, lineB, '''']). 4 \<le> length (split ''<>'' c)"
    by code_simp
  have m: "monoHistory exampleWorld ''tat'' = Inr \<lparr>name = ''tat'', history = [recA10]\<rparr>"
    by code_simp
  have p: "pairEntry exampleWorld ''tat'' ''apertium-tat-kir'' None = Inr [recA20]"
    by code_simp
  from absent_or_malformed_is_empty[of exampleWorld "''tat''" "''tat''" None
      "[lineA, lineB, '''']" "''apertium-tat-kir''" "[lineA, lineB, '''']"] j c w l
  have "readHistory exampleWorld ''tat'' ''tat'' None = Inr (Some []) \<and>
    (\<exists>hist. monoHistory exampleWorld ''tat'' = Inr \<lparr>name = ''tat'', history = hist\<rparr> \<and>
            sha ` set hist =
              {split ''<>'' c ! 0 | c. c \<in> set (butlast [lineA, lineB, '''']) \<and>
                 (\<exists>n. monoCount exampleWorld ''tat'' (fileExt exampleWorld ''tat'') (split ''<>'' c)
                        = Inr (Some n))}) \<and>
    (\<exists>hist. pairEntry exampleWorld ''tat'' ''apertium-tat-kir'' None = Inr hist \<and>
            sha ` set hist =
              {split ''<>'' c ! 0 | c. c \<in> set (butlast [lineA, lineB, '''']) \<and>
                 (\<exists>n. pairCount exampleWorld (rmPrefix ''apertium-tat-kir'') (split ''<>'' c)
                        = Inr (Some n))})"
    by blast
  with j m p x show ?thesis by simp
qed

text \<open>
  The claim as first stated, for every persisted file that fails to parse as JSON,
  fails for a file that is not valid UTF-8: the exception raised is UnicodeDecodeError,
  lines 84 and 200 do not catch it, and monoHistory and pairHistory raise it instead of
  starting from the empty history.
\<close>

theorem absent_or_malformed_is_empty_counterexample:
  "jsonFile undecodableWorld ''tat'' = Raising UnicodeDecodeError \<and>
   readHistory undecodableWorld ''tat'' ''tat'' None = Inl UnicodeDecodeError \<and>
   monoHistory undecodableWorld ''tat'' = Inl UnicodeDecodeError \<and>
   pairHistory undecodableWorld ''tat'' [''tat'', ''kir'']
     [\<lparr>pname = ''apertium-tat-kir'', topics = []\<rparr>] = Inl UnicodeDecodeError"
  by code_simp

section \<open>Properties of the orchestrators\<close>

subsection \<open>The packages passed over\<close>

lemma matchPair_prefix: "matchPair s \<Longrightarrow> s = ''apertium-'' @ rmPrefix s"
  unfolding matchPair_def rmPrefix_def
  by (metis append_take_drop_id prefix_def append_eq_conv_conj)

text \<open>Packages that are not accepted can be removed from the list.\<close>

lemma pairLoop_filter:
  "\<forall>p\<in>set ps. \<not> P p \<longrightarrow> \<not> accepted l ls p \<Longrightarrow>
   pairLoop w l ls (filter P ps) hv acc = pairLoop w l ls ps hv acc"
proof (induction ps arbitrary: hv acc)
  case Nil
  then show ?case by simp
next
  case (Cons p ps)
  then show ?case
    by (cases "P p") (auto simp: accepted_def split: sum.splits)
qed

lemma pairDataLoop_filter:
  "\<forall>p\<in>set ps. \<not> P p \<longrightarrow> \<not> acceptedData ls p \<Longrightarrow>
   pairDataLoop w ls (filter P ps) lv sv acc = pairDataLoop w ls ps lv sv acc"
proof (induction ps arbitrary: lv sv acc)
  case Nil
  then show ?case by simp
next
  case (Cons p ps)
  then show ?case
    by (cases "P p") (auto simp: acceptedData_def split: sum.splits)
qed

text \<open>Every entry returned comes from an accepted package.\<close>

lemma pairLoop_names:
  "pairLoop w l ls ps hv acc = Inr out \<Longrightarrow> e \<in> set out \<Longrightarrow>
   e \<in> set acc \<or> (\<exists>p\<in>set ps. accepted l ls p \<and> name e = rmPrefix (pname p))"
proof (induction ps arbitrary: hv acc)
  case Nil
  then show ?case by simp
next
  case (Cons p ps)
  show ?case
  proof (cases "accepted l ls p")
    case False
    with Cons.prems(1) have "pairLoop w l ls ps hv acc = Inr out"
      by (auto simp: accepted_def split: if_splits)
    from Cons.IH[OF this Cons.prems(2)] show ?thesis by auto
  next
    case True
    with Cons.prems(1) obtain h where
      "pairLoop w l ls ps (Some h) (acc @ [\<lparr>name = rmPrefix (pname p), history = h\<rparr>]) = Inr out"
      by (auto simp: accepted_def split: if_splits sum.splits)
    from Cons.IH[OF this Cons.prems(2)] True show ?thesis by auto
  qed
qed

lemma pairDataLoop_langs:
  "pairDataLoop w ls ps lv sv acc = Inr out \<Longrightarrow> r \<in> set out \<Longrightarrow>
   r \<in> set acc \<or>
   (\<exists>p\<in>set ps. acceptedData ls p \<and> langs r = set (split ''-'' (rmPrefix (pname p))))"
proof (induction ps arbitrary: lv sv acc)
  case Nil
  then show ?case by simp
next
  case (Cons p ps)
  show ?case
  proof (cases "acceptedData ls p")
    case False
    with Cons.prems(1) have "pairDataLoop w ls ps lv sv acc = Inr out"
      by (auto simp: acceptedData_def split: if_splits)
    from Cons.IH[OF this Cons.prems(2)] show ?thesis by auto
  next
    case True
    with Cons.prems(1) obtain r' lv' sv' where
      e: "pairDataEntry w p lv sv = Inr (r', lv', sv')" and
      l: "pairDataLoop w ls ps lv' sv' (acc @ [r']) = Inr out"
      by (auto simp: acceptedData_def split: if_splits sum.splits)
    from e have "langs r' = set (split ''-'' (rmPrefix (pname p)))"
      by (auto simp: pairDataEntry_def Let_def split: option.splits)
    with Cons.IH[OF l Cons.prems(2)] True show ?thesis by auto
  qed
qed

text \<open>A name that matches the pattern of pairs has at least two codes.\<close>

lemma splitAcc_two: "c \<in> set t \<Longrightarrow> 2 \<le> length (splitAcc [c] acc t)"
proof (induction t arbitrary: acc)
  case Nil
  then show ?case by simp
next
  case (Cons x xs)
  show ?case
  proof (cases "x = c")
    case True
    have "splitAcc [c] [] xs \<noteq> []" by (rule splitAcc_nonempty)
    then have "1 \<le> length (splitAcc [c] [] xs)" by (cases "splitAcc [c] [] xs") auto
    with True show ?thesis by simp
  next
    case False
    with Cons show ?thesis by auto
  qed
qed

lemma matchPair_two: "matchPair s \<Longrightarrow> 2 \<le> length (split ''-'' (rmPrefix s))"
proof -
  assume m: "matchPair s"
  let ?rest = "drop (length ''apertium-'') s"
  from m obtain r2 where "dropWhile isWord ?rest = CHR ''-'' # r2"
    by (auto simp: matchPair_def Let_def split: list.splits)
  then have "CHR ''-'' \<in> set (dropWhile isWord ?rest)" by simp
  then have "CHR ''-'' \<in> set ?rest" by (rule set_dropWhileD)
  then show ?thesis unfolding split_def rmPrefix_def by (rule splitAcc_two)
qed

text \<open>
  C7 (the pair \<open>ita-srd\<close> is excluded). Whatever the packages and the languages are
  (also when \<open>ita\<close> and \<open>srd\<close> are among the languages), no entry that pairHistory
  returns is named \<open>ita-srd\<close>, and the package \<open>apertium-ita-srd\<close> contributes nothing
  to pairHistory or to pairData: both return what they return without it.
\<close>

theorem ita_srd_excluded:
  "(\<forall>out. pairHistory w language languages packages = Inr out \<longrightarrow>
      ''ita-srd'' \<notin> name ` set out) \<and>
   pairHistory w language languages packages =
     pairHistory w language languages (filter (\<lambda>p. pname p \<noteq> ''apertium-ita-srd'') packages) \<and>
   pairData w packages languages =
     pairData w (filter (\<lambda>p. pname p \<noteq> ''apertium-ita-srd'') packages) languages"
proof (intro conjI allI impI)
  fix out assume "pairHistory w language languages packages = Inr out"
  then have l: "pairLoop w language languages packages None [] = Inr out"
    by (simp add: pairHistory_def)
  show "''ita-srd'' \<notin> name ` set out"
  proof
    assume "''ita-srd'' \<in> name ` set out"
    then obtain e where "e \<in> set out" "name e = ''ita-srd''" by auto
    with pairLoop_names[OF l this(1)] obtain p where
      "accepted language languages p" "rmPrefix (pname p) = ''ita-srd''" by auto
    then show False by (simp add: accepted_def excluded_def)
  qed
next
  have "\<forall>p\<in>set packages. \<not> pname p \<noteq> ''apertium-ita-srd'' \<longrightarrow> \<not> accepted language languages p"
    by (simp add: accepted_def excluded_def rmPrefix_def)
  from pairLoop_filter[OF this]
  show "pairHistory w language languages packages =
     pairHistory w language languages (filter (\<lambda>p. pname p \<noteq> ''apertium-ita-srd'') packages)"
    by (simp add: pairHistory_def)
next
  have "\<forall>p\<in>set packages. \<not> pname p \<noteq> ''apertium-ita-srd'' \<longrightarrow> \<not> acceptedData languages p"
    by (simp add: acceptedData_def excluded_def rmPrefix_def)
  from pairDataLoop_filter[OF this]
  show "pairData w packages languages =
     pairData w (filter (\<lambda>p. pname p \<noteq> ''apertium-ita-srd'') packages) languages"
    by (simp add: pairData_def)
qed

text \<open>The theorem at the packages \<open>apertium-ita-srd\<close> and \<open>apertium-srd-ita\<close>, both
  languages being asked for: the one entry is that of \<open>srd-ita\<close>.\<close>

theorem ita_srd_excluded_witness:
  "pairHistory exampleWorld ''ita'' [''ita'', ''srd'']
     [\<lparr>pname = ''apertium-ita-srd'', topics = [''apertium-trunk'']\<rparr>,
      \<lparr>pname = ''apertium-srd-ita'', topics = [''apertium-trunk'']\<rparr>] =
     Inr [\<lparr>name = ''srd-ita'', history = [recA20]\<rparr>] \<and>
   ''ita-srd'' \<notin> name ` set [\<lparr>name = ''srd-ita'', history = [recA20]\<rparr>] \<and>
   pairData exampleWorld
     [\<lparr>pname = ''apertium-ita-srd'', topics = [''apertium-trunk'']\<rparr>,
      \<lparr>pname = ''apertium-srd-ita'', topics = [''apertium-trunk'']\<rparr>] [''ita'', ''srd''] =
     pairData exampleWorld [\<lparr>pname = ''apertium-srd-ita'', topics = [''apertium-trunk'']\<rparr>]
       [''ita'', ''srd''] \<and>
   pairData exampleWorld [\<lparr>pname = ''apertium-srd-ita'', topics = [''apertium-trunk'']\<rparr>]
       [''ita'', ''srd''] =
     Inr [\<lparr>langs = {''srd'', ''ita''}, plocation = ''trunk'', pstems = 200\<rparr>]"
proof -
  let ?ps = "[\<lparr>pname = ''apertium-ita-srd'', topics = [''apertium-trunk'']\<rparr>,
              \<lparr>pname = ''apertium-srd-ita'', topics = [''apertium-trunk'']\<rparr>]"
  have h: "pairHistory exampleWorld ''ita'' [''ita'', ''srd''] ?ps =
      Inr [\<lparr>name = ''srd-ita'', history = [recA20]\<rparr>]"
    by code_simp
  have f: "filter (\<lambda>p. pname p \<noteq> ''apertium-ita-srd'') ?ps =
      [\<lparr>pname = ''apertium-srd-ita'', topics = [''apertium-trunk'']\<rparr>]"
    by simp
  have d: "pairData exampleWorld [\<lparr>pname = ''apertium-srd-ita'', topics = [''apertium-trunk'']\<rparr>]
       [''ita'', ''srd''] =
     Inr [\<lparr>langs = {''srd'', ''ita''}, plocation = ''trunk'', pstems = 200\<rparr>]"
    by code_simp
  from ita_srd_excluded[of exampleWorld "''ita''" "[''ita'', ''srd'']" ?ps] h
  have "''ita-srd'' \<notin> name ` set [\<lparr>name = ''srd-ita'', history = [recA20]\<rparr>] \<and>
    pairData exampleWorld ?ps [''ita'', ''srd''] =
      pairData exampleWorld (filter (\<lambda>p. pname p \<noteq> ''apertium-ita-srd'') ?ps) [''ita'', ''srd'']"
    by blast
  with h d show ?thesis unfolding f by simp
qed

text \<open>
  C10 (the codes of a pair are languages of the family), as amended. The name of every
  entry that pairHistory returns splits at the hyphens into at least two codes, and
  every one of them is among the languages asked for; the codes of every record that
  pairData returns are among the languages asked for, and there is at least one. A
  package with a code outside the languages contributes nothing: both functions return
  what they return without it. The codes need not be two, nor different.
\<close>

theorem pair_members:
  "(\<forall>out. pairHistory w language languages packages = Inr out \<longrightarrow>
      (\<forall>e\<in>set out. set (split ''-'' (name e)) \<subseteq> set languages \<and>
                    2 \<le> length (split ''-'' (name e)))) \<and>
   (\<forall>out. pairData w packages languages = Inr out \<longrightarrow>
      (\<forall>r\<in>set out. langs r \<subseteq> set languages \<and> langs r \<noteq> {})) \<and>
   pairHistory w language languages packages =
     pairHistory w language languages
       (filter (\<lambda>p. set (split ''-'' (rmPrefix (pname p))) \<subseteq> set languages) packages) \<and>
   pairData w packages languages =
     pairData w (filter (\<lambda>p. set (split ''-'' (rmPrefix (pname p))) \<subseteq> set languages) packages)
       languages"
proof (intro conjI allI impI ballI)
  fix out e assume "pairHistory w language languages packages = Inr out" "e \<in> set out"
  then obtain p where p: "accepted language languages p" "name e = rmPrefix (pname p)"
    using pairLoop_names[of w language languages packages None "[]" out e]
    by (auto simp: pairHistory_def)
  then show "set (split ''-'' (name e)) \<subseteq> set languages"
    by (simp add: accepted_def excluded_def)
  from p show "2 \<le> length (split ''-'' (name e))"
    by (simp add: accepted_def matchPair_two)
next
  fix out r assume "pairData w packages languages = Inr out" "r \<in> set out"
  then obtain p where p: "acceptedData languages p"
    "langs r = set (split ''-'' (rmPrefix (pname p)))"
    using pairDataLoop_langs[of w languages packages None None "[]" out r]
    by (auto simp: pairData_def)
  then show "langs r \<subseteq> set languages"
    by (simp add: acceptedData_def excluded_def)
  from p show "langs r \<noteq> {}"
    by (simp add: split_nonempty)
next
  have "\<forall>p\<in>set packages. \<not> set (split ''-'' (rmPrefix (pname p))) \<subseteq> set languages
          \<longrightarrow> \<not> accepted language languages p"
    by (simp add: accepted_def excluded_def)
  from pairLoop_filter[OF this]
  show "pairHistory w language languages packages =
     pairHistory w language languages
       (filter (\<lambda>p. set (split ''-'' (rmPrefix (pname p))) \<subseteq> set languages) packages)"
    by (simp add: pairHistory_def)
next
  have "\<forall>p\<in>set packages. \<not> set (split ''-'' (rmPrefix (pname p))) \<subseteq> set languages
          \<longrightarrow> \<not> acceptedData languages p"
    by (simp add: acceptedData_def excluded_def)
  from pairDataLoop_filter[OF this]
  show "pairData w packages languages =
     pairData w (filter (\<lambda>p. set (split ''-'' (rmPrefix (pname p))) \<subseteq> set languages) packages)
       languages"
    by (simp add: pairData_def)
qed

text \<open>The theorem at the packages \<open>apertium-tat-kir\<close> and \<open>apertium-tat-rus\<close>, the
  languages being \<open>tat\<close> and \<open>kir\<close>: the one entry is that of \<open>tat-kir\<close>.\<close>

theorem pair_members_witness:
  "pairHistory exampleWorld ''tat'' [''tat'', ''kir'']
     [\<lparr>pname = ''apertium-tat-rus'', topics = [''apertium-trunk'']\<rparr>,
      \<lparr>pname = ''apertium-tat-kir'', topics = [''apertium-trunk'']\<rparr>] =
     Inr [\<lparr>name = ''tat-kir'', history = [recA20]\<rparr>] \<and>
   set (split ''-'' ''tat-kir'') \<subseteq> set [''tat'', ''kir''] \<and>
   2 \<le> length (split ''-'' ''tat-kir'') \<and>
   pairData exampleWorld
     [\<lparr>pname = ''apertium-tat-rus'', topics = [''apertium-trunk'']\<rparr>,
      \<lparr>pname = ''apertium-tat-kir'', topics = [''apertium-trunk'']\<rparr>] [''tat'', ''kir''] =
     Inr [\<lparr>langs = {''tat'', ''kir''}, plocation = ''trunk'', pstems = 200\<rparr>] \<and>
   {''tat'', ''kir''} \<subseteq> set [''tat'', ''kir'']"
proof -
  let ?ps = "[\<lparr>pname = ''apertium-tat-rus'', topics = [''apertium-trunk'']\<rparr>,
              \<lparr>pname = ''apertium-tat-kir'', topics = [''apertium-trunk'']\<rparr>]"
  have h: "pairHistory exampleWorld ''tat'' [''tat'', ''kir''] ?ps =
      Inr [\<lparr>name = ''tat-kir'', history = [recA20]\<rparr>]"
    by code_simp
  have d: "pairData exampleWorld ?ps [''tat'', ''kir''] =
      Inr [\<lparr>langs = {''tat'', ''kir''}, plocation = ''trunk'', pstems = 200\<rparr>]"
    by code_simp
  from pair_members[of exampleWorld "''tat''" "[''tat'', ''kir'']" ?ps] h d
  have "(\<forall>e\<in>set [\<lparr>name = ''tat-kir'', history = [recA20]\<rparr>].
           set (split ''-'' (name e)) \<subseteq> set [''tat'', ''kir''] \<and>
           2 \<le> length (split ''-'' (name e))) \<and>
        (\<forall>r\<in>set [\<lparr>langs = {''tat'', ''kir''}, plocation = ''trunk'', pstems = 200\<rparr>].
           langs r \<subseteq> set [''tat'', ''kir''] \<and> langs r \<noteq> {})"
    by blast
  with h d show ?thesis by simp
qed

text \<open>
  The claim as first stated, that an entry names exactly two codes, fails for a
  repository named with three codes that are all among the languages: the pattern of
  line 155 is matched at the start of the name only.
\<close>

theorem pair_members_counterexample:
  "pairHistory exampleWorld ''eng'' [''eng'', ''fra'', ''deu'']
     [\<lparr>pname = ''apertium-eng-fra-deu'', topics = [''apertium-trunk'']\<rparr>] =
     Inr [\<lparr>name = ''eng-fra-deu'', history = [recA20]\<rparr>] \<and>
   split ''-'' ''eng-fra-deu'' = [''eng'', ''fra'', ''deu''] \<and>
   pairData exampleWorld [\<lparr>pname = ''apertium-eng-fra-deu'', topics = [''apertium-trunk'']\<rparr>]
     [''eng'', ''fra'', ''deu''] =
     Inr [\<lparr>langs = {''eng'', ''fra'', ''deu''}, plocation = ''trunk'', pstems = 200\<rparr>] \<and>
   card {''eng'', ''fra'', ''deu''} \<noteq> 2"
  by code_simp

subsection \<open>The dictionary of a pair\<close>

lemma pairCount_gitLog [simp]:
  "pairCount (w\<lparr>gitLogCommits := g\<rparr>) = pairCount w"
  by (intro ext) (simp add: pairCount_def)

lemma readHistory_gitLog [simp]:
  "readHistory (w\<lparr>gitLogCommits := g\<rparr>) = readHistory w"
  by (intro ext) (simp add: readHistory_def)

text \<open>The body of pairHistory asks git for one file only.\<close>

lemma pairEntry_tracked:
  "pairEntry w language dirName hvar =
   pairEntry (w\<lparr>gitLogCommits :=
       (\<lambda>d f. if f = dictFile (dixName (rmPrefix dirName)) ''dix'' then gitLogCommits w d f
               else None)\<rparr>) language dirName hvar"
  by (simp add: pairEntry_def walk_def prepRepo_def Let_def split: option.splits sum.splits)

text \<open>
  C8 (the alias of \<open>tat-kir\<close>). The dictionary of the pair \<open>tat-kir\<close> is tracked as
  \<^verbatim>\<open>apertium-tt-ky.tt-ky.dix\<close>, and that of every other pair under the name of the
  pair. These are the files the body of pairHistory walks: it returns the same in a
  world where git fails on every other file.
\<close>

theorem tat_kir_alias:
  "dictFile (dixName ''tat-kir'') ''dix'' = ''apertium-tt-ky.tt-ky.dix'' \<and>
   (pairName \<noteq> ''tat-kir'' \<longrightarrow>
      dictFile (dixName pairName) ''dix'' = ''apertium-'' @ pairName @ ''.'' @ pairName @ ''.dix'') \<and>
   pairEntry w language ''apertium-tat-kir'' hvar =
     pairEntry (w\<lparr>gitLogCommits :=
         (\<lambda>d f. if f = ''apertium-tt-ky.tt-ky.dix'' then gitLogCommits w d f else None)\<rparr>)
       language ''apertium-tat-kir'' hvar \<and>
   (rmPrefix dirName \<noteq> ''tat-kir'' \<longrightarrow>
      pairEntry w language dirName hvar =
        pairEntry (w\<lparr>gitLogCommits :=
            (\<lambda>d f. if f = ''apertium-'' @ rmPrefix dirName @ ''.'' @ rmPrefix dirName @ ''.dix''
                    then gitLogCommits w d f else None)\<rparr>)
          language dirName hvar)"
proof (intro conjI impI)
  show a: "dictFile (dixName ''tat-kir'') ''dix'' = ''apertium-tt-ky.tt-ky.dix''"
    by (simp add: dictFile_def dixName_def)
  show b: "dictFile (dixName nm) ''dix'' = ''apertium-'' @ nm @ ''.'' @ nm @ ''.dix''"
    if "nm \<noteq> ''tat-kir''" for nm
    using that by (simp add: dictFile_def dixName_def)
  have "rmPrefix ''apertium-tat-kir'' = ''tat-kir''" by (simp add: rmPrefix_def)
  with pairEntry_tracked[of w language "''apertium-tat-kir''" hvar] a
  show "pairEntry w language ''apertium-tat-kir'' hvar =
     pairEntry (w\<lparr>gitLogCommits :=
         (\<lambda>d f. if f = ''apertium-tt-ky.tt-ky.dix'' then gitLogCommits w d f else None)\<rparr>)
       language ''apertium-tat-kir'' hvar"
    by simp
  assume "rmPrefix dirName \<noteq> ''tat-kir''"
  from b[OF this] pairEntry_tracked[of w language dirName hvar]
  show "pairEntry w language dirName hvar =
        pairEntry (w\<lparr>gitLogCommits :=
            (\<lambda>d f. if f = ''apertium-'' @ rmPrefix dirName @ ''.'' @ rmPrefix dirName @ ''.dix''
                    then gitLogCommits w d f else None)\<rparr>)
          language dirName hvar"
    by simp
qed

text \<open>The theorem at the pairs \<open>tat-kir\<close> and \<open>kir-tat\<close>, in a world where git knows
  the file \<^verbatim>\<open>apertium-tt-ky.tt-ky.dix\<close> only.\<close>

theorem tat_kir_alias_witness:
  "dictFile (dixName ''kir-tat'') ''dix'' = ''apertium-kir-tat.kir-tat.dix'' \<and>
   pairEntry exampleWorld ''tat'' ''apertium-tat-kir'' None =
     pairEntry aliasWorld ''tat'' ''apertium-tat-kir'' None \<and>
   pairEntry aliasWorld ''tat'' ''apertium-tat-kir'' None = Inr [recA20] \<and>
   pairEntry aliasWorld ''tat'' ''apertium-kir-tat'' None = Inl CalledProcessError"
proof -
  have n: "''kir-tat'' \<noteq> ''tat-kir''" "rmPrefix ''apertium-kir-tat'' \<noteq> ''tat-kir''"
    by (simp_all add: rmPrefix_def)
  have a: "aliasWorld =
     exampleWorld\<lparr>gitLogCommits :=
       (\<lambda>d f. if f = ''apertium-tt-ky.tt-ky.dix'' then gitLogCommits exampleWorld d f else None)\<rparr>"
    by (simp only: aliasWorld_def)
  have r: "pairEntry aliasWorld ''tat'' ''apertium-tat-kir'' None = Inr [recA20]"
    "pairEntry aliasWorld ''tat'' ''apertium-kir-tat'' None = Inl CalledProcessError"
    by code_simp+
  from tat_kir_alias[of "''kir-tat''" exampleWorld "''tat''" None "''apertium-kir-tat''"] n
  have "dictFile (dixName ''kir-tat'') ''dix'' = ''apertium-'' @ ''kir-tat'' @ ''.'' @ ''kir-tat'' @ ''.dix'' \<and>
    pairEntry exampleWorld ''tat'' ''apertium-tat-kir'' None =
      pairEntry (exampleWorld\<lparr>gitLogCommits :=
         (\<lambda>d f. if f = ''apertium-tt-ky.tt-ky.dix'' then gitLogCommits exampleWorld d f else None)\<rparr>)
       ''tat'' ''apertium-tat-kir'' None"
    by blast
  with r show ?thesis unfolding a[symmetric] by simp
qed

subsection \<open>The state of a language\<close>

text \<open>At the first row of the language the loop of lines 327-331 reads the state.\<close>

lemma findState_match:
  assumes "list_all (otherLanguage language) pre"
    and "nameCellText row = Inr t" and "rmPrefix t = language"
  shows "findState col language (pre @ row # post) sv =
     (case stateCellText row col of Inl e \<Rightarrow> Inl e | Inr s \<Rightarrow> Inr (Some s))"
  using assms
  by (induction pre arbitrary: sv) (auto simp: otherLanguage_def split: sum.splits)

text \<open>
  C9 (the column of the state). The column read is 7 for the family \<open>celtic\<close> and 6
  for every other family: when the body of monoData returns a record for a package,
  and \<open>row\<close> is the first row of the wiki table, after the two header rows, whose name
  cell names the language, then the state of the record is the stripped text of the
  cell of that row at index 7 for \<open>celtic\<close>, at index 6 otherwise.
\<close>

theorem celtic_column:
  assumes "monoEntry w langFamily p vars = Inr (r, vars')"
    and "wikiTable w (''http://wiki.apertium.org/wiki/'' @ langFamily @ ''_languages'') = Some table"
    and "drop 2 (children table) = pre @ row # post"
    and "list_all (otherLanguage (rmPrefix (pname p))) pre"
    and "nameCellText row = Inr t" and "rmPrefix t = rmPrefix (pname p)"
  shows "stateCol langFamily = (if langFamily = ''celtic'' then 7 else 6) \<and>
     (\<exists>c txt. child row (if langFamily = ''celtic'' then 7 else 6) = Inr c \<and>
        etext c = Some txt \<and> state r = strip txt)"
proof
  show sc: "stateCol langFamily = (if langFamily = ''celtic'' then 7 else 6)"
    by (simp add: stateCol_def)
  from assms(1,2) obtain stv where
    f: "findState (stateCol langFamily) (rmPrefix (pname p)) (drop 2 (children table))
          (stateVar vars) = Inr stv"
    and s: "stv = Some (state r)"
    by (auto simp: monoEntry_def Let_def split: sum.splits option.splits)
  from findState_match[OF assms(4,5,6)] f assms(3) s
  have "stateCellText row (stateCol langFamily) = Inr (state r)"
    by (auto split: sum.splits)
  then show "\<exists>c txt. child row (if langFamily = ''celtic'' then 7 else 6) = Inr c \<and>
        etext c = Some txt \<and> state r = strip txt"
    unfolding sc by (auto simp: stateCellText_def split: sum.splits option.splits)
qed

text \<open>The theorem at the package \<open>apertium-tat\<close>, whose row is the second of the
  example table, for the family \<open>celtic\<close> and for the family \<open>turkic\<close>.\<close>

theorem celtic_column_witness:
  "monoData exampleWorld [\<lparr>pname = ''apertium-tat'', topics = [''apertium-languages'']\<rparr>]
     [''tat'', ''kir''] ''celtic'' =
     Inr [\<lparr>lang = ''tat'', state = ''seven'', mstems = 100, location = ''apertium-tat (languages)'',
           contributors = [\<lparr>user = ''Ann'', cvalue = 2\<rparr>, \<lparr>user = ''Bob'', cvalue = 1\<rparr>]\<rparr>] \<and>
   (\<exists>c txt. child rowTat 7 = Inr c \<and> etext c = Some txt \<and> ''seven'' = strip txt) \<and>
   monoData exampleWorld [\<lparr>pname = ''apertium-tat'', topics = [''apertium-languages'']\<rparr>]
     [''tat'', ''kir''] ''turkic'' =
     Inr [\<lparr>lang = ''tat'', state = ''six'', mstems = 100, location = ''apertium-tat (languages)'',
           contributors = [\<lparr>user = ''Ann'', cvalue = 2\<rparr>, \<lparr>user = ''Bob'', cvalue = 1\<rparr>]\<rparr>] \<and>
   (\<exists>c txt. child rowTat 6 = Inr c \<and> etext c = Some txt \<and> ''six'' = strip txt)"
proof -
  let ?p = "\<lparr>pname = ''apertium-tat'', topics = [''apertium-languages'']\<rparr>"
  let ?v = "\<lparr>stemsVar = None, locVar = None, stateVar = None\<rparr>"
  let ?c = "[\<lparr>user = ''Ann'', cvalue = 2\<rparr>, \<lparr>user = ''Bob'', cvalue = 1\<rparr>]"
  let ?r = "\<lambda>st. \<lparr>lang = ''tat'', state = st, mstems = 100,
                   location = ''apertium-tat (languages)'', contributors = ?c\<rparr>"
  let ?v' = "\<lambda>st. \<lparr>stemsVar = Some 100, locVar = Some ''languages'', stateVar = Some st\<rparr>"
  have e7: "monoEntry exampleWorld ''celtic'' ?p ?v = Inr (?r ''seven'', ?v' ''seven'')"
    by code_simp
  have e6: "monoEntry exampleWorld ''turkic'' ?p ?v = Inr (?r ''six'', ?v' ''six'')"
    by code_simp
  have t: "wikiTable exampleWorld (''http://wiki.apertium.org/wiki/'' @ fam @ ''_languages'') =
      Some exampleTable" for fam
    by (simp add: exampleWorld_def)
  have d: "drop 2 (children exampleTable) = [rowKir] @ rowTat # []"
    by (simp add: exampleTable_def)
  have o: "list_all (otherLanguage (rmPrefix (pname ?p))) [rowKir]"
    by code_simp
  have n: "nameCellText rowTat = Inr ''apertium-tat''"
    "rmPrefix ''apertium-tat'' = rmPrefix (pname ?p)"
    by code_simp+
  have m7: "monoData exampleWorld [?p] [''tat'', ''kir''] ''celtic'' = Inr [?r ''seven'']"
    by code_simp
  have m6: "monoData exampleWorld [?p] [''tat'', ''kir''] ''turkic'' = Inr [?r ''six'']"
    by code_simp
  from celtic_column[OF e7 t d o n]
  have c7: "\<exists>c txt. child rowTat 7 = Inr c \<and> etext c = Some txt \<and> ''seven'' = strip txt"
    by simp
  from celtic_column[OF e6 t d o n]
  have c6: "\<exists>c txt. child rowTat 6 = Inr c \<and> etext c = Some txt \<and> ''six'' = strip txt"
    by simp
  from m7 c7 m6 c6 show ?thesis by simp
qed

subsection \<open>A dictionary of unknown extension\<close>

text \<open>
  C5 (a monolingual repository whose dictionary has no recognized extension is passed
  over): the code does not do so. \<open>fileExt\<close> answers \<^verbatim>\<open>unknown\<close>, and the last
  branch of lines 248-253, whose comment speaks of the extension \<^verbatim>\<open>metadix\<close>, takes
  it for the type \<^verbatim>\<open>metamonodix\<close>; nothing tests for \<^verbatim>\<open>unknown\<close>. For the
  repository \<open>apertium-xyz\<close>, whose only file of the pattern is a \<^verbatim>\<open>.twol\<close> file,
  monoData asks the stats service for the type \<^verbatim>\<open>metamonodix\<close> and git for the file
  \<^verbatim>\<open>apertium-xyz.xyz.unknown\<close>: it returns a record for \<open>xyz\<close> when both answer, and
  the whole call fails when git does not.
\<close>

theorem unknown_extension_not_skipped:
  "fileExt unknownWorld ''xyz'' = ''unknown'' \<and>
   fileTypeOf (fileExt unknownWorld ''xyz'') = ''metamonodix'' \<and>
   monoData unknownWorld [\<lparr>pname = ''apertium-xyz'', topics = [''apertium-languages'']\<rparr>]
     [''xyz''] ''turkic'' =
     Inr [\<lparr>lang = ''xyz'', state = ''unknown'', mstems = 100,
           location = ''apertium-xyz (languages)'',
           contributors = [\<lparr>user = ''Ann'', cvalue = 2\<rparr>, \<lparr>user = ''Bob'', cvalue = 1\<rparr>]\<rparr>] \<and>
   monoData unknownWorldGit
     [\<lparr>pname = ''apertium-xyz'', topics = [''apertium-languages'']\<rparr>,
      \<lparr>pname = ''apertium-tat'', topics = [''apertium-languages'']\<rparr>]
     [''xyz'', ''tat''] ''turkic'' = Inl CalledProcessError"
  by code_simp

end
